theory Spec2Isabelle
  imports Main "HOL-Library.AList"
begin

section \<open>JavaScript values\<close>

text \<open>
  The resolvers of \<^verbatim>\<open>src/resolvers/user.ts\<close> are untyped at run time: what they
  test is the truthiness of a value, what they read is a property or an index of it.
  The values that reach them are modelled by one datatype. A promise carries the value
  it resolves to; what matters below is that the promise object itself is not that
  value.
\<close>

datatype jsval =
    Undefined
  | Null
  | Bool bool
  | Num int
  | Str string
  | Obj "(string \<times> jsval) list"
  | Arr "jsval list"
  | Promise jsval

type_synonym fields = "(string \<times> jsval) list"

datatype error =
    Error string
  | AuthenticationError string
  | TypeError string

text \<open>\<^verbatim>\<open>if (v)\<close>, \<^verbatim>\<open>!v\<close>, \<^verbatim>\<open>a || b\<close>: every object, array and promise is truthy.\<close>

fun truthy :: "jsval \<Rightarrow> bool" where
  "truthy Undefined = False"
| "truthy Null = False"
| "truthy (Bool b) = b"
| "truthy (Num n) = (n \<noteq> 0)"
| "truthy (Str s) = (s \<noteq> [])"
| "truthy (Obj fs) = True"
| "truthy (Arr xs) = True"
| "truthy (Promise v) = True"

text \<open>\<^verbatim>\<open>await v\<close>: a promise yields what it resolves to, any other value itself.\<close>

fun await :: "jsval \<Rightarrow> jsval" where
  "await (Promise v) = await v"
| "await v = v"

text \<open>A field of an object literal or of an input object; a missing one is \<^verbatim>\<open>undefined\<close>.\<close>

definition fld :: "fields \<Rightarrow> string \<Rightarrow> jsval" where
  "fld fs k = (case map_of fs k of None \<Rightarrow> Undefined | Some v \<Rightarrow> v)"

text \<open>
  \<^verbatim>\<open>v.k\<close> for the property names the resolvers read (\<^verbatim>\<open>id\<close>, \<^verbatim>\<open>user\<close>,
  \<^verbatim>\<open>userUpdated\<close>): a TypeError on \<^verbatim>\<open>undefined\<close> and \<^verbatim>\<open>null\<close>, the field of an
  object, \<^verbatim>\<open>undefined\<close> on every other value (a promise has no such property). The
  wording of a TypeError's message is the engine's; only that one is thrown matters.
\<close>

fun property :: "jsval \<Rightarrow> string \<Rightarrow> error + jsval" where
  "property Undefined k = Inl (TypeError (''Cannot read property '' @ k @ '' of undefined''))"
| "property Null k = Inl (TypeError (''Cannot read property '' @ k @ '' of null''))"
| "property (Obj fs) k = Inr (fld fs k)"
| "property v k = Inr Undefined"

text \<open>The decimal numeral of a number, as a property key or in a string.\<close>

definition digit :: "nat \<Rightarrow> char" where
  "digit d =
     (if d = 0 then CHR ''0'' else if d = 1 then CHR ''1'' else if d = 2 then CHR ''2''
      else if d = 3 then CHR ''3'' else if d = 4 then CHR ''4'' else if d = 5 then CHR ''5''
      else if d = 6 then CHR ''6'' else if d = 7 then CHR ''7'' else if d = 8 then CHR ''8''
      else CHR ''9'')"

function digits :: "nat \<Rightarrow> string" where
  "digits n = (if n < 10 then [digit n] else digits (n div 10) @ [digit (n mod 10)])"
  by pat_completeness auto
termination
  by (relation "measure (\<lambda>n. n)") auto

text \<open>\<^verbatim>\<open>v[i]\<close> for a numeric index; on an object the index is the key written as that numeral.\<close>

fun index :: "jsval \<Rightarrow> nat \<Rightarrow> error + jsval" where
  "index Undefined i = Inl (TypeError ''Cannot read property of undefined'')"
| "index Null i = Inl (TypeError ''Cannot read property of null'')"
| "index (Arr xs) i = Inr (if i < length xs then xs ! i else Undefined)"
| "index (Str s) i = Inr (if i < length s then Str [s ! i] else Undefined)"
| "index (Obj fs) i = Inr (fld fs (digits i))"
| "index v i = Inr Undefined"

text \<open>
  \<^verbatim>\<open>a === b\<close>. Primitives compare by value. Objects, arrays and promises compare by
  reference, which the model does not have: the operands compared below come from
  different places (the request and the store), so they are never the same object.
\<close>

fun strict_eq :: "jsval \<Rightarrow> jsval \<Rightarrow> bool" where
  "strict_eq (Obj a) b = False"
| "strict_eq (Arr a) b = False"
| "strict_eq (Promise a) b = False"
| "strict_eq a b = (a = b)"

text \<open>\<^verbatim>\<open>a || b\<close>.\<close>

definition or_else :: "jsval \<Rightarrow> jsval \<Rightarrow> jsval" where
  "or_else a b = (if truthy a then a else b)"

text \<open>\<^verbatim>\<open>{...base, ...extra}\<close>: a later key replaces an earlier one in place.\<close>

definition spread :: "fields \<Rightarrow> fields \<Rightarrow> fields" where
  "spread base extra = foldl (\<lambda>acc (k, v). AList.update k v acc) base extra"

text \<open>String conversion, as a template literal and \<^verbatim>\<open>new Error(err)\<close> apply it.\<close>

fun to_str :: "jsval \<Rightarrow> string" and join_elems :: "jsval list \<Rightarrow> string" where
  "to_str Undefined = ''undefined''"
| "to_str Null = ''null''"
| "to_str (Bool b) = (if b then ''true'' else ''false'')"
| "to_str (Num n) = (if n < 0 then ''-'' @ digits (nat (- n)) else digits (nat n))"
| "to_str (Str s) = s"
| "to_str (Obj fs) = ''[object Object]''"
| "to_str (Arr xs) = join_elems xs"
| "to_str (Promise v) = ''[object Promise]''"
| "join_elems [] = []"
| "join_elems [x] = (if x = Undefined \<or> x = Null then [] else to_str x)"
| "join_elems (x # y # ys) =
     (if x = Undefined \<or> x = Null then [] else to_str x) @ '','' @ join_elems (y # ys)"

fun error_to_string :: "error \<Rightarrow> string" where
  "error_to_string (Error m) = ''Error: '' @ m"
| "error_to_string (AuthenticationError m) = ''AuthenticationError: '' @ m"
| "error_to_string (TypeError m) = ''TypeError: '' @ m"

section \<open>The collaborators of the resolvers\<close>

subsection \<open>The store handle \<^verbatim>\<open>models.User\<close>\<close>

text \<open>
  The resolvers reach the accounts through the handle \<^verbatim>\<open>models.User\<close> of the request
  context. The model class itself (\<^verbatim>\<open>models/User.ts\<close>, a Sequelize model) is not among
  the sources, so the handle is a parameter: four operations over a store state
  \<^typ>\<open>'s\<close>, each returning what the call expression evaluates to, before any
  \<^verbatim>\<open>await\<close>. A lookup leaves the store as it is.
\<close>

record 's User_model =
  findOne :: "jsval \<Rightarrow> 's \<Rightarrow> jsval"
  findOrCreate :: "jsval \<Rightarrow> 's \<Rightarrow> jsval \<times> 's"
  create :: "jsval \<Rightarrow> jsval \<Rightarrow> 's \<Rightarrow> jsval \<times> 's"
  update :: "jsval \<Rightarrow> jsval \<Rightarrow> jsval \<Rightarrow> 's \<Rightarrow> jsval \<times> 's"

subsection \<open>The event broadcaster \<^verbatim>\<open>pubsub\<close>\<close>

text \<open>
  Modelled from the spec: the Event Broadcaster of section 4.5 (the \<^verbatim>\<open>PubSub\<close> object
  and \<^verbatim>\<open>withFilter\<close> come from the apollo-server package, not from this repository).
  \<^verbatim>\<open>publish\<close> hands the payload to every subscriber registered on the topic at that
  moment, in publish order; a subscriber registered through \<^verbatim>\<open>withFilter\<close> keeps a
  payload only when its predicate returns \<^verbatim>\<open>true\<close>, and a predicate that throws
  delivers nothing. The list \<open>published\<close> records every publication, so that "nothing
  was published" can be stated.
\<close>

record subscriber =
  sub_topic :: string
  sub_filter :: "(jsval \<Rightarrow> error + jsval) option"
  received :: "jsval list"

record pubsub =
  published :: "(string \<times> jsval) list"
  subscribers :: "subscriber list"

definition deliver :: "string \<Rightarrow> jsval \<Rightarrow> subscriber \<Rightarrow> subscriber" where
  \<comment> \<open>Modelled from the spec: delivery of one publication to one subscriber (section 4.5); PubSub is not among the sources.\<close>
  "deliver topic payload s =
     (if sub_topic s = topic
      then (case sub_filter s of
              None \<Rightarrow> s\<lparr>received := received s @ [payload]\<rparr>
            | Some f \<Rightarrow>
                (if f payload = Inr (Bool True)
                 then s\<lparr>received := received s @ [payload]\<rparr> else s))
      else s)"

definition publish :: "string \<Rightarrow> jsval \<Rightarrow> pubsub \<Rightarrow> pubsub" where
  \<comment> \<open>Modelled from the spec: \<^verbatim>\<open>publish(topic, payload)\<close> of the Event Broadcaster (section 4.5).\<close>
  "publish topic payload ps =
     \<lparr>published = published ps @ [(topic, payload)],
      subscribers = map (deliver topic payload) (subscribers ps)\<rparr>"

definition asyncIterator :: "string \<Rightarrow> subscriber" where
  \<comment> \<open>Modelled from the spec: a subscriber of a topic with no predicate (section 4.5, \<^verbatim>\<open>subscribe\<close>).\<close>
  "asyncIterator topic = \<lparr>sub_topic = topic, sub_filter = None, received = []\<rparr>"

definition withFilter :: "subscriber \<Rightarrow> (jsval \<Rightarrow> error + jsval) \<Rightarrow> subscriber" where
  \<comment> \<open>Modelled from the spec: a subscriber with a predicate (section 4.5, \<^verbatim>\<open>subscribe(topic, predicate)\<close>).\<close>
  "withFilter it f = it\<lparr>sub_filter := Some f\<rparr>"

definition register :: "subscriber \<Rightarrow> pubsub \<Rightarrow> pubsub" where
  \<comment> \<open>Modelled from the spec: registration of a subscriber with the broadcaster (section 4.5).\<close>
  "register s ps = ps\<lparr>subscribers := subscribers ps @ [s]\<rparr>"

subsection \<open>Hashing and signing\<close>

text \<open>
  Modelled from the spec: \<^verbatim>\<open>encryptPassword\<close> of \<^verbatim>\<open>utils/encryption\<close> (section 4.1,
  \<^verbatim>\<open>hash(secret)\<close>: an opaque hash computed from the secret) is not among the sources,
  and \<^verbatim>\<open>jwt.sign\<close> belongs to the jsonwebtoken package (section 4.3: a signed token
  binding the account id and the role, never failing). Both are stand-ins: a non-empty
  string computed from the arguments. \<^verbatim>\<open>Role.User\<close> is a constant of \<^verbatim>\<open>types\<close>, which
  is not among the sources either.
\<close>

definition encryptPassword :: "jsval \<Rightarrow> jsval" where
  \<comment> \<open>Modelled from the spec: \<^verbatim>\<open>hash(secret)\<close> of section 4.1; \<^verbatim>\<open>utils/encryption\<close> is not among the sources.\<close>
  "encryptPassword password = Str (''$hash$'' @ to_str password)"

definition Role_User :: jsval where
  \<comment> \<open>Modelled from the spec: the role of a session token (section 3); \<^verbatim>\<open>types\<close> is not among the sources.\<close>
  "Role_User = Str ''User''"

definition jwt_sign :: "jsval \<Rightarrow> jsval \<Rightarrow> jsval" where
  \<comment> \<open>Modelled from the spec: \<^verbatim>\<open>issue(accountId, role, secret)\<close> of section 4.3; jsonwebtoken is not among the sources.\<close>
  "jwt_sign payload secret =
     (case payload of
        Obj fs \<Rightarrow> Str (''jwt.'' @ to_str (fld fs ''userId'') @ ''.'' @ to_str (fld fs ''role'')
                      @ ''.'' @ to_str secret)
      | _ \<Rightarrow> Str (''jwt.'' @ to_str payload @ ''.'' @ to_str secret))"

subsection \<open>A store of accounts\<close>

text \<open>
  Modelled from the spec: the Identity Store Adapter of sections 3 and 6 (the model class
  \<^verbatim>\<open>models/User.ts\<close> and the storage layer are not among the sources). An account is
  a row with the columns of the data model; the store generates the id on creation and
  keeps every other column as it is handed over (\<^verbatim>\<open>null\<close> when it is not). A lookup
  returns the first row that satisfies every condition of \<^verbatim>\<open>where\<close>; the one operator
  is \<^verbatim>\<open>$notLike\<close> with a pattern \<^verbatim>\<open>prefix%\<close>, which a row without a social key
  satisfies ("social-key absent, i.e. not prefixed"). An update changes the columns
  named in its values and leaves the others untouched. The parameter \<open>answer\<close> is how
  an operation hands its result over: wrapped in a promise, as a Sequelize model does,
  or as the value itself, as a synchronous stub would.
\<close>

record store =
  rows :: "fields list"
  next_id :: nat

definition columns :: "string list" where
  \<comment> \<open>Modelled from the spec: the attributes of an Account (section 3); \<^verbatim>\<open>models/User.ts\<close> is not among the sources.\<close>
  "columns = [''id'', ''email'', ''social'', ''password'', ''name'', ''nickname'', ''photo'',
              ''birthday'', ''gender'', ''phone'', ''verified'']"

definition new_row :: "nat \<Rightarrow> fields \<Rightarrow> fields" where
  \<comment> \<open>Modelled from the spec: the row of a created Account (section 3): the id is generated, the rest is kept.\<close>
  "new_row n vals =
     map (\<lambda>c. (c, if c = ''id'' then Str (''user-'' @ digits n)
                  else (case fld vals c of Undefined \<Rightarrow> Null | v \<Rightarrow> v))) columns"

definition like :: "string \<Rightarrow> string \<Rightarrow> bool" where
  \<comment> \<open>Modelled from the spec: the pattern \<^verbatim>\<open>prefix%\<close> of the lookup for a local account (section 4.2, step 1).\<close>
  "like s pat =
     (if pat \<noteq> [] \<and> last pat = CHR ''%'' then take (length pat - 1) s = butlast pat
      else s = pat)"

definition cond_holds :: "jsval \<Rightarrow> jsval \<Rightarrow> bool" where
  \<comment> \<open>Modelled from the spec: one condition of a lookup (section 4.2, step 1: absent social key counts as not prefixed).\<close>
  "cond_holds c v =
     (case c of
        Obj [(op, Str pat)] \<Rightarrow>
          (if op = ''$notLike'' then (case v of Str s \<Rightarrow> \<not> like s pat | _ \<Rightarrow> True)
           else False)
      | Undefined \<Rightarrow> v = Null
      | _ \<Rightarrow> v = c)"

definition where_match :: "fields \<Rightarrow> fields \<Rightarrow> bool" where
  \<comment> \<open>Modelled from the spec: a row satisfies every condition of the lookup (section 6, the find operations).\<close>
  "where_match w r = list_all (\<lambda>(k, c). cond_holds c (fld r k)) w"

definition where_of :: "jsval \<Rightarrow> fields" where
  \<comment> \<open>Modelled from the spec: the conditions of a lookup request (section 6).\<close>
  "where_of opts =
     (case opts of
        Obj fs \<Rightarrow> (case fld fs ''where'' of Obj w \<Rightarrow> w | _ \<Rightarrow> [])
      | _ \<Rightarrow> [])"

definition defaults_of :: "jsval \<Rightarrow> fields" where
  \<comment> \<open>Modelled from the spec: the defaults of a find-or-create request (section 6).\<close>
  "defaults_of opts =
     (case opts of
        Obj fs \<Rightarrow> (case fld fs ''defaults'' of Obj d \<Rightarrow> d | _ \<Rightarrow> [])
      | _ \<Rightarrow> [])"

definition apply_patch :: "jsval \<Rightarrow> fields \<Rightarrow> fields" where
  \<comment> \<open>Modelled from the spec: \<^verbatim>\<open>update(id, patch)\<close> on one row (section 4.4, step 2: absent fields untouched).\<close>
  "apply_patch vals r =
     (case vals of
        Obj fs \<Rightarrow> map (\<lambda>(c, old). (c, case fld fs c of Undefined \<Rightarrow> old | v \<Rightarrow> v)) r
      | _ \<Rightarrow> r)"

definition store_findOne :: "(jsval \<Rightarrow> jsval) \<Rightarrow> jsval \<Rightarrow> store \<Rightarrow> jsval" where
  \<comment> \<open>Modelled from the spec: \<^verbatim>\<open>findByEmail\<close>, \<^verbatim>\<open>findById\<close> of section 6.\<close>
  "store_findOne answer opts st =
     answer (case find (where_match (where_of opts)) (rows st) of
               None \<Rightarrow> Null
             | Some r \<Rightarrow> Obj r)"

definition store_findOrCreate :: "(jsval \<Rightarrow> jsval) \<Rightarrow> jsval \<Rightarrow> store \<Rightarrow> jsval \<times> store" where
  \<comment> \<open>Modelled from the spec: \<^verbatim>\<open>findOrCreateBySocialKey(key, defaults)\<close> of section 6.\<close>
  "store_findOrCreate answer opts st =
     (case find (where_match (where_of opts)) (rows st) of
        Some r \<Rightarrow> (answer (Arr [Obj r, Bool False]), st)
      | None \<Rightarrow>
          (let r = new_row (next_id st) (defaults_of opts)
           in (answer (Arr [Obj r, Bool True]),
               st\<lparr>rows := rows st @ [r], next_id := Suc (next_id st)\<rparr>)))"

definition store_create ::
    "(jsval \<Rightarrow> jsval) \<Rightarrow> jsval \<Rightarrow> jsval \<Rightarrow> store \<Rightarrow> jsval \<times> store" where
  \<comment> \<open>Modelled from the spec: \<^verbatim>\<open>create(fields)\<close> of section 6.\<close>
  "store_create answer vals opts st =
     (let r = new_row (next_id st) (case vals of Obj fs \<Rightarrow> fs | _ \<Rightarrow> [])
      in (answer (Obj r), st\<lparr>rows := rows st @ [r], next_id := Suc (next_id st)\<rparr>))"

definition store_update ::
    "(jsval \<Rightarrow> jsval) \<Rightarrow> jsval \<Rightarrow> jsval \<Rightarrow> jsval \<Rightarrow> store \<Rightarrow> jsval \<times> store" where
  \<comment> \<open>Modelled from the spec: \<^verbatim>\<open>update(id, patch)\<close> of section 6.\<close>
  "store_update answer vals opts extra st =
     (answer (Arr [Num (int (length (filter (where_match (where_of opts)) (rows st))))]),
      st\<lparr>rows := map (\<lambda>r. if where_match (where_of opts) r then apply_patch vals r else r)
                        (rows st)\<rparr>)"

definition store_User :: "(jsval \<Rightarrow> jsval) \<Rightarrow> store User_model" where
  \<comment> \<open>Modelled from the spec: the Identity Store Adapter of section 6 as a handle.\<close>
  "store_User answer =
     \<lparr>findOne = store_findOne answer,
      findOrCreate = store_findOrCreate answer,
      create = store_create answer,
      update = store_update answer\<rparr>"

text \<open>
  The two ways of answering. The models of the repository that are among the sources
  (\<^verbatim>\<open>Friend\<close>, \<^verbatim>\<open>Chat\<close>, \<^verbatim>\<open>Membership\<close>) extend Sequelize's \<^verbatim>\<open>Model\<close>, whose
  query methods return promises, and \<^verbatim>\<open>updateProfile\<close> and \<^verbatim>\<open>signUp\<close> await
  \<^verbatim>\<open>findOne\<close> and \<^verbatim>\<open>create\<close>: \<open>sequelize_User\<close> is the handle the resolvers get in
  the running server. \<open>stub_User\<close> is the same store answering with the values
  themselves.
\<close>

definition sequelize_User :: "store User_model" where
  "sequelize_User = store_User Promise"

definition stub_User :: "store User_model" where
  "stub_User = store_User (\<lambda>v. v)"

definition empty_store :: store where
  "empty_store = \<lparr>rows = [], next_id = 1\<rparr>"

definition no_pubsub :: pubsub where
  "no_pubsub = \<lparr>published = [], subscribers = []\<rparr>"

section \<open>The resolvers of \<^verbatim>\<open>src/resolvers/user.ts\<close>\<close>

definition USER_ADDED :: string where
  "USER_ADDED = ''USER_ADDED''"

definition USER_UPDATED :: string where
  "USER_UPDATED = ''USER_UPDATED''"

definition SOCIAL_NAME_GOOGLE :: string where
  "SOCIAL_NAME_GOOGLE = ''google''"

definition SOCIAL_NAME_FACEBOOK :: string where
  "SOCIAL_NAME_FACEBOOK = ''facebook''"

text \<open>\<^verbatim>\<open>!user || (user && user[1] === false)\<close>. The index is read only of a truthy value.\<close>

definition hasUser :: "jsval \<Rightarrow> bool" where
  "hasUser user = (\<not> truthy user \<or> (truthy user \<and> index user 1 = Inr (Bool False)))"

text \<open>
  \<^verbatim>\<open>isSignedIn\<close>: the options handed to \<^verbatim>\<open>User.findOne\<close>, then the function. The
  result of \<^verbatim>\<open>User.findOne(...)\<close> is tested as it is returned; the source has no
  \<^verbatim>\<open>await\<close> here. The spread of \<^verbatim>\<open>queryOptions\<close> comes last in the object literal,
  so its \<^verbatim>\<open>where\<close> replaces the one on the email alone.
\<close>

definition findOne_options :: "fields \<Rightarrow> fields \<Rightarrow> jsval" where
  "findOne_options user queryOptions =
     (let email = fld user ''email''
      in Obj (spread [(''raw'', Bool True), (''where'', Obj [(''email'', email)])] queryOptions))"

definition isSignedIn :: "'s User_model \<Rightarrow> fields \<Rightarrow> fields \<Rightarrow> 's \<Rightarrow> bool" where
  "isSignedIn User user queryOptions st =
     (let emailUser = findOne User (findOne_options user queryOptions) st
      in if truthy emailUser then True else False)"

definition social_queryOptions :: "fields \<Rightarrow> string \<Rightarrow> fields" where
  "social_queryOptions socialUser socialName =
     (let email = fld socialUser ''email''
      in [(''where'', Obj [(''email'', email),
                           (''social'', Obj [(''$notLike'', Str (socialName @ ''%''))])])])"

definition isSignedInBySocial :: "'s User_model \<Rightarrow> fields \<Rightarrow> string \<Rightarrow> 's \<Rightarrow> bool" where
  "isSignedInBySocial User socialUser socialName st =
     isSignedIn User socialUser (social_queryOptions socialUser socialName) st"

text \<open>
  \<^verbatim>\<open>getOrSignUp\<close>: the options handed to \<^verbatim>\<open>User.findOrCreate\<close>, then the function. The
  result of \<^verbatim>\<open>findOrCreate\<close> is again used as it is returned, without \<^verbatim>\<open>await\<close>.
\<close>

definition findOrCreate_options :: "fields \<Rightarrow> string \<Rightarrow> jsval" where
  "findOrCreate_options socialUser socialName =
     (let email = fld socialUser ''email'';
          social = fld socialUser ''social''
      in Obj [(''where'', Obj [(''social'', Str (socialName @ ''_'' @ to_str social))]),
              (''defaults'', Obj
                 [(''social'', Str (socialName @ ''_'' @ to_str social)),
                  (''email'', email),
                  (''name'', fld socialUser ''name''),
                  (''nickname'', fld socialUser ''nickname''),
                  (''photo'', fld socialUser ''photo''),
                  (''birthday'', fld socialUser ''birthday''),
                  (''gender'', fld socialUser ''gender''),
                  (''phone'', fld socialUser ''phone''),
                  (''verified'', or_else email (Bool False))]),
              (''raw'', Bool True)])"

definition getOrSignUp ::
    "'s User_model \<Rightarrow> fields \<Rightarrow> string \<Rightarrow> 's \<Rightarrow> (error + jsval) \<times> 's" where
  "getOrSignUp User socialUser socialName st =
     (case findOrCreate User (findOrCreate_options socialUser socialName) st of
        (foundUser, st') \<Rightarrow>
          if hasUser foundUser then (index foundUser 0, st') else (Inr Null, st'))"

definition signIn :: "jsval \<Rightarrow> jsval \<Rightarrow> jsval" where
  "signIn userId appSecret = jwt_sign (Obj [(''userId'', userId), (''role'', Role_User)]) appSecret"

text \<open>\<^verbatim>\<open>catch (err) { throw new Error(err); }\<close>\<close>

definition rethrow :: "error \<Rightarrow> error" where
  "rethrow err = Error (error_to_string err)"

definition signInGoogle ::
    "'s User_model \<Rightarrow> fields \<Rightarrow> jsval \<Rightarrow> 's \<Rightarrow> (error + jsval) \<times> 's" where
  "signInGoogle User socialUser appSecret st =
     (let email = fld socialUser ''email''
      in if truthy email \<and> isSignedInBySocial User socialUser SOCIAL_NAME_GOOGLE st
         then (Inl (rethrow (Error ''Email for current user is already signed in'')), st)
         else (case getOrSignUp User socialUser SOCIAL_NAME_GOOGLE st of
                 (Inl err, st') \<Rightarrow> (Inl (rethrow err), st')
               | (Inr user, st') \<Rightarrow>
                   if \<not> truthy user then (Inl (rethrow (Error ''Failed to sign up.'')), st')
                   else (case property user ''id'' of
                           Inl err \<Rightarrow> (Inl (rethrow err), st')
                         | Inr userId \<Rightarrow>
                             (Inr (Obj [(''token'', signIn userId appSecret), (''user'', user)]),
                              st'))))"

definition signInFacebook ::
    "'s User_model \<Rightarrow> fields \<Rightarrow> jsval \<Rightarrow> 's \<Rightarrow> (error + jsval) \<times> 's" where
  "signInFacebook User socialUser appSecret st =
     (let email = fld socialUser ''email''
      in if truthy email \<and> isSignedInBySocial User socialUser SOCIAL_NAME_FACEBOOK st
         then (Inl (rethrow (Error ''Email for current user is already signed in'')), st)
         else (case getOrSignUp User socialUser SOCIAL_NAME_FACEBOOK st of
                 (Inl err, st') \<Rightarrow> (Inl (rethrow err), st')
               | (Inr user, st') \<Rightarrow>
                   if \<not> truthy user then (Inl (rethrow (Error ''Failed to sign up.'')), st')
                   else (case property user ''id'' of
                           Inl err \<Rightarrow> (Inl (rethrow err), st')
                         | Inr userId \<Rightarrow>
                             (Inr (Obj [(''token'', signIn userId appSecret), (''user'', user)]),
                              st'))))"

text \<open>
  \<^verbatim>\<open>signUp\<close> has no \<^verbatim>\<open>try\<close>: its errors reach the caller as they are thrown. The
  created row is awaited; the payload published on \<^verbatim>\<open>USER_ADDED\<close> is the created row
  itself.
\<close>

definition signUp ::
    "'s User_model \<Rightarrow> fields \<Rightarrow> jsval \<Rightarrow> 's \<Rightarrow> pubsub \<Rightarrow> (error + jsval) \<times> 's \<times> pubsub" where
  "signUp User user appSecret st ps =
     (let password = fld user ''password''
      in if isSignedIn User user [] st
         then (Inl (Error ''Email for current user is already signed in''), st, ps)
         else (let encryptedPassword = encryptPassword password;
                   userToCreate = spread user [(''password'', encryptedPassword)]
               in case create User (Obj userToCreate) (Obj [(''raw'', Bool True)]) st of
                    (r, st') \<Rightarrow>
                      (let createdUser = await r
                       in case property createdUser ''id'' of
                            Inl err \<Rightarrow> (Inl err, st', ps)
                          | Inr userId \<Rightarrow>
                              (let token = jwt_sign
                                     (Obj [(''userId'', userId), (''role'', Role_User)]) appSecret;
                                   ps' = publish USER_ADDED (Obj [(''userAdded'', createdUser)]) ps
                               in (Inr (Obj [(''token'', token), (''user'', createdUser)]),
                                   st', ps')))))"

text \<open>
  \<^verbatim>\<open>updateProfile\<close>: \<open>auth\<close> is what \<^verbatim>\<open>await getUser()\<close> yields. The values handed to
  \<^verbatim>\<open>User.update\<close> are \<^verbatim>\<open>args\<close>, the whole argument object, whose one key is
  \<^verbatim>\<open>user\<close>. The update is not awaited; its effect is taken to reach the store before
  the read that follows, the order most favourable to the caller. The payload published
  on \<^verbatim>\<open>USER_UPDATED\<close> is \<^verbatim>\<open>{ user }\<close>.
\<close>

definition updateProfile ::
    "'s User_model \<Rightarrow> jsval \<Rightarrow> fields \<Rightarrow> 's \<Rightarrow> pubsub \<Rightarrow> (error + jsval) \<times> 's \<times> pubsub" where
  "updateProfile User auth args st ps =
     (case property auth ''id'' of
        Inl err \<Rightarrow> (Inl (rethrow err), st, ps)
      | Inr authId \<Rightarrow>
          (case property (fld args ''user'') ''id'' of
             Inl err \<Rightarrow> (Inl (rethrow err), st, ps)
           | Inr userId \<Rightarrow>
               if \<not> strict_eq authId userId
               then (Inl (rethrow (AuthenticationError ''User can update his or her own profile'')),
                     st, ps)
               else (case update User (Obj args) (Obj [(''where'', Obj [(''id'', userId)])])
                            (Obj [(''raw'', Bool True)]) st of
                       (r, st') \<Rightarrow>
                         (let user = await (findOne User
                                (Obj [(''where'', Obj [(''id'', userId)]), (''raw'', Bool True)]) st');
                              ps' = publish USER_UPDATED (Obj [(''user'', user)]) ps
                          in (Inr user, st', ps')))))"

text \<open>The two subscriptions: \<^verbatim>\<open>userAdded\<close> has no predicate, \<^verbatim>\<open>userUpdated\<close> has one.\<close>

definition userAdded_subscribe :: "fields \<Rightarrow> pubsub \<Rightarrow> pubsub" where
  "userAdded_subscribe args ps = register (asyncIterator USER_ADDED) ps"

definition userUpdated_filter :: "jsval \<Rightarrow> fields \<Rightarrow> error + jsval" where
  "userUpdated_filter payload variables =
     (case property payload ''userUpdated'' of
        Inl err \<Rightarrow> Inl err
      | Inr userUpdated \<Rightarrow>
          (case property userUpdated ''id'' of
             Inl err \<Rightarrow> Inl err
           | Inr i \<Rightarrow> Inr (Bool (strict_eq i (fld variables ''id'')))))"

definition userUpdated_subscribe :: "fields \<Rightarrow> pubsub \<Rightarrow> pubsub" where
  "userUpdated_subscribe args ps =
     register (withFilter (asyncIterator USER_UPDATED) (\<lambda>payload. userUpdated_filter payload args)) ps"

subsection \<open>The errors of the spec, as the resolvers throw them\<close>

text \<open>
  \<^verbatim>\<open>signUp\<close> throws its conflict as it is; the social resolvers and \<^verbatim>\<open>updateProfile\<close>
  catch what they throw and throw \<^verbatim>\<open>new Error(err)\<close>, whose message is the caught
  error printed.
\<close>

definition AlreadySignedUp :: error where
  "AlreadySignedUp = Error ''Email for current user is already signed in''"

definition EmailAlreadyClaimed :: error where
  "EmailAlreadyClaimed = Error ''Error: Email for current user is already signed in''"

definition SignUpFailed :: error where
  "SignUpFailed = Error ''Error: Failed to sign up.''"

definition Forbidden :: error where
  "Forbidden = Error ''AuthenticationError: User can update his or her own profile''"

subsection \<open>Notions the claims are stated with\<close>

text \<open>
  A local account, as the claims use the word about a provider: its social key is absent
  or is not prefixed by the provider's name.
\<close>

definition local_account :: "string \<Rightarrow> fields \<Rightarrow> bool" where
  "local_account provider r =
     (case fld r ''social'' of Str s \<Rightarrow> take (length provider) s \<noteq> provider | _ \<Rightarrow> True)"

text \<open>A store whose rows have the columns of the data model, each once.\<close>

definition well_formed :: "store \<Rightarrow> bool" where
  "well_formed st = list_all (\<lambda>r. map fst r = columns) (rows st)"

text \<open>A run of publications, in order.\<close>

definition publish_all :: "(string \<times> jsval) list \<Rightarrow> pubsub \<Rightarrow> pubsub" where
  "publish_all events ps = foldl (\<lambda>q (topic, payload). publish topic payload q) ps events"

text \<open>
  The two stores a Google and a Facebook sign-in are compared on: the same accounts, with
  the provider prefix of every social key exchanged (\<^verbatim>\<open>google\<close> for \<^verbatim>\<open>facebook\<close> and
  back). A result is carried over in the same way: the account it returns has its social
  key exchanged, the token and an error stay as they are.
\<close>

definition swap_provider :: "string \<Rightarrow> string" where
  "swap_provider s =
     (if take 6 s = ''google'' then ''facebook'' @ drop 6 s
      else if take 8 s = ''facebook'' then ''google'' @ drop 8 s
      else s)"

definition swap_social :: "jsval \<Rightarrow> jsval" where
  "swap_social v = (case v of Str s \<Rightarrow> Str (swap_provider s) | _ \<Rightarrow> v)"

definition swap_row :: "fields \<Rightarrow> fields" where
  "swap_row r = map (\<lambda>(c, v). (c, if c = ''social'' then swap_social v else v)) r"

definition swap_store :: "store \<Rightarrow> store" where
  "swap_store st = st\<lparr>rows := map swap_row (rows st)\<rparr>"

definition swap_result :: "jsval \<Rightarrow> jsval" where
  "swap_result res =
     (case res of
        Obj fs \<Rightarrow>
          Obj (map (\<lambda>(k, v). (k, if k = ''user''
                                  then (case v of Obj r \<Rightarrow> Obj (swap_row r) | _ \<Rightarrow> v)
                                  else v)) fs)
      | _ \<Rightarrow> res)"

text \<open>A store with a local account and the Google account of the spec's scenario.\<close>

definition social_store :: store where
  "social_store =
     \<lparr>rows = [new_row 1 [(''email'', Str ''a@x.com''), (''name'', Str ''A'')],
              new_row 2 [(''social'', Str ''google_g1''), (''verified'', Bool False)]],
      next_id = 3\<rparr>"

text \<open>A store with the one account of the spec's scenarios.\<close>

definition sample_store :: store where
  "sample_store =
     \<lparr>rows = [new_row 1 [(''email'', Str ''a@x.com''), (''name'', Str ''A'')]], next_id = 2\<rparr>"

section \<open>Auxiliary facts\<close>

lemma fld_Nil: "fld [] k = Undefined"
  by (simp add: fld_def)

lemma fld_Cons: "fld ((k', v) # fs) k = (if k' = k then v else fld fs k)"
  by (simp add: fld_def)

lemmas fld_simps = fld_Nil fld_Cons

lemma fld_update: "fld (AList.update k v fs) k' = (if k = k' then v else fld fs k')"
  by (simp add: fld_def update_conv')

lemmas store_defs =
  sequelize_User_def stub_User_def store_User_def store_findOne_def store_findOrCreate_def
  store_create_def store_update_def where_of_def defaults_of_def where_match_def cond_holds_def
  like_def apply_patch_def new_row_def columns_def digit_def empty_store_def sample_store_def

lemmas pubsub_defs =
  publish_def deliver_def register_def asyncIterator_def withFilter_def userAdded_subscribe_def
  userUpdated_subscribe_def userUpdated_filter_def no_pubsub_def

lemma fld_new_row:
  "fld (new_row n vals) c =
     (if c = ''id'' then Str (''user-'' @ digits n)
      else if c \<in> set columns then (case fld vals c of Undefined \<Rightarrow> Null | v \<Rightarrow> v)
      else Undefined)"
  by (simp add: new_row_def columns_def fld_simps)

section \<open>Sign-up against a store that answers with promises\<close>

lemma isSignedIn_sequelize: "isSignedIn sequelize_User user queryOptions st"
  by (simp add: isSignedIn_def sequelize_User_def store_User_def store_findOne_def)

text \<open>
  C1 (the code departs from the claim). The claim: a sign-up whose email matches no
  account succeeds with a token and the created account, and a second one with the same
  email fails with AlreadySignedUp. What the code does: \<^verbatim>\<open>isSignedIn\<close> tests the promise
  that \<^verbatim>\<open>User.findOne\<close> returns, not the row it resolves to, and a promise is truthy.
  Against a store that answers with promises every sign-up, the first included, fails
  with AlreadySignedUp; nothing is created and nothing is published.
\<close>

theorem signUp_sequelize_always_conflicts:
  "signUp sequelize_User user appSecret st ps = (Inl AlreadySignedUp, st, ps)"
  by (simp add: signUp_def isSignedIn_sequelize AlreadySignedUp_def)

theorem signUp_sequelize_always_conflicts_witness:
  "signUp sequelize_User
     [(''email'', Str ''a@x.com''), (''password'', Str ''p''), (''name'', Str ''A'')]
     (Str ''secret'') empty_store no_pubsub
   = (Inl AlreadySignedUp, empty_store, no_pubsub)"
  by (rule signUp_sequelize_always_conflicts)

text \<open>
  For comparison: against a store that hands over the row itself, where the test in
  \<^verbatim>\<open>isSignedIn\<close> sees what the lookup found, a sign-up with a fresh email succeeds
  with a non-empty token and the created account, and a second one fails.
\<close>

lemma signUp_stub_fresh_email:
  assumes "fld user ''email'' = Str e"
    and "\<forall>r \<in> set (rows st). fld r ''email'' \<noteq> Str e"
  shows "\<exists>token createdUser st' ps'.
           signUp stub_User user appSecret st ps
             = (Inr (Obj [(''token'', Str token), (''user'', Obj createdUser)]), st', ps')
         \<and> token \<noteq> [] \<and> fld createdUser ''email'' = Str e
         \<and> signUp stub_User user appSecret st' ps' = (Inl AlreadySignedUp, st', ps')"
proof -
  let ?w = "[(''email'', Str e)]"
  let ?r = "new_row (next_id st) (spread user [(''password'', encryptPassword (fld user ''password''))])"
  let ?st = "st\<lparr>rows := rows st @ [?r], next_id := Suc (next_id st)\<rparr>"
  have w: "where_of (findOne_options user []) = ?w"
    using assms(1) by (simp add: findOne_options_def spread_def where_of_def fld_simps)
  have "find (where_match ?w) (rows st) = None"
    using assms(2) by (auto simp add: find_None_iff where_match_def cond_holds_def)
  then have fresh: "\<not> isSignedIn stub_User user [] st"
    by (simp add: isSignedIn_def stub_User_def store_User_def store_findOne_def w)
  have e: "fld ?r ''email'' = Str e"
    using assms(1) by (simp add: fld_new_row columns_def spread_def fld_update)
  then have "where_match ?w ?r"
    by (simp add: where_match_def cond_holds_def)
  then have "find (where_match ?w) (rows ?st) \<noteq> None"
    by (auto simp add: find_None_iff)
  then obtain r' where "find (where_match ?w) (rows ?st) = Some r'"
    by blast
  then have taken: "isSignedIn stub_User user [] ?st"
    by (simp add: isSignedIn_def stub_User_def store_User_def store_findOne_def w)
  show ?thesis
    using fresh taken e
    by (simp add: signUp_def stub_User_def store_User_def store_create_def Let_def fld_new_row
        jwt_sign_def fld_simps AlreadySignedUp_def)
qed


section \<open>Profile update by another identity\<close>

text \<open>
  A requester who is signed in: when the requester has an id and it is not the id of the
  target account, \<^verbatim>\<open>updateProfile\<close> fails with Forbidden, whatever the store handle is;
  the store is the one it started from (no field of any account is modified) and so is
  the broadcaster (nothing is published, no subscriber receives anything).
\<close>

lemma updateProfile_other_identity_forbidden:
  assumes "property auth ''id'' = Inr requesterId"
    and "property (fld args ''user'') ''id'' = Inr targetId"
    and "\<not> strict_eq requesterId targetId"
  shows "updateProfile User auth args st ps = (Inl Forbidden, st, ps)"
  using assms by (simp add: updateProfile_def rethrow_def Forbidden_def)

lemma updateProfile_other_identity_run:
  "updateProfile sequelize_User (Obj [(''id'', Str ''u2'')])
     [(''user'', Obj [(''id'', Str ''u1''), (''name'', Str ''New'')])] empty_store no_pubsub
   = (Inl Forbidden, empty_store, no_pubsub)"
proof -
  have a: "property (Obj [(''id'', Str ''u2'')]) ''id'' = Inr (Str ''u2'')"
    by (simp add: fld_simps)
  have b: "property (fld [(''user'', Obj [(''id'', Str ''u1''), (''name'', Str ''New'')])] ''user'') ''id''
             = Inr (Str ''u1'')"
    by (simp add: fld_simps)
  have c: "\<not> strict_eq (Str ''u2'') (Str ''u1'')"
    by simp
  show ?thesis
    by (rule updateProfile_other_identity_forbidden [OF a b c])
qed

text \<open>
  C6 (the code departs from the claim). The claim: every profile update whose requester
  is not the target account fails with Forbidden and leaves the account and the
  broadcaster untouched. What the code does when nobody is signed in, so that
  \<^verbatim>\<open>await getUser()\<close> yields \<^verbatim>\<open>null\<close> or \<^verbatim>\<open>undefined\<close>: reading \<^verbatim>\<open>auth.id\<close> throws a
  TypeError, which the \<^verbatim>\<open>catch\<close> rethrows as a plain error; the failure is not
  Forbidden. Store and broadcaster are untouched there as well. The \<^verbatim>\<open>users\<close> query
  of the same file tests \<^verbatim>\<open>!user\<close> and throws an AuthenticationError; \<^verbatim>\<open>updateProfile\<close>
  has no such test.
\<close>

theorem updateProfile_unauthenticated_not_forbidden:
  "(\<exists>m. updateProfile User Null args st ps = (Inl (Error (''TypeError: '' @ m)), st, ps))
   \<and> (\<exists>m. updateProfile User Undefined args st ps = (Inl (Error (''TypeError: '' @ m)), st, ps))
   \<and> fst (updateProfile User Null args st ps) \<noteq> Inl Forbidden
   \<and> fst (updateProfile User Undefined args st ps) \<noteq> Inl Forbidden"
  by (simp add: updateProfile_def rethrow_def Forbidden_def)

theorem updateProfile_unauthenticated_not_forbidden_witness:
  "fst (updateProfile sequelize_User Null
          [(''user'', Obj [(''id'', Str ''user-1''), (''name'', Str ''New'')])]
          sample_store no_pubsub) \<noteq> Inl Forbidden
   \<and> snd (updateProfile sequelize_User Null
          [(''user'', Obj [(''id'', Str ''user-1''), (''name'', Str ''New'')])]
          sample_store no_pubsub) = (sample_store, no_pubsub)"
  using updateProfile_unauthenticated_not_forbidden
    [of sequelize_User "[(''user'', Obj [(''id'', Str ''user-1''), (''name'', Str ''New'')])]"
        sample_store no_pubsub]
  by auto

section \<open>Social sign-in\<close>

lemma hasUser_Promise: "\<not> hasUser (Promise v)"
  by (simp add: hasUser_def)

lemma hasUser_created: "\<not> hasUser (Arr [r, Bool True])"
  by (simp add: hasUser_def)

lemma where_of_findOrCreate:
  "where_of (findOrCreate_options socialUser socialName)
   = [(''social'', Str (socialName @ ''_'' @ to_str (fld socialUser ''social'')))]"
  by (simp add: findOrCreate_options_def where_of_def fld_simps Let_def)

lemma find_social_None:
  assumes "\<forall>r \<in> set (rows st). fld r ''social'' \<noteq> Str k"
  shows "find (where_match [(''social'', Str k)]) (rows st) = None"
  using assms by (auto simp add: find_None_iff where_match_def cond_holds_def)

lemma getOrSignUp_sequelize:
  "fst (getOrSignUp sequelize_User socialUser socialName st) = Inr Null"
  by (simp add: getOrSignUp_def sequelize_User_def store_User_def store_findOrCreate_def
      hasUser_Promise Let_def split: option.split)

lemma getOrSignUp_stub_created:
  assumes "\<forall>r \<in> set (rows st).
             fld r ''social'' \<noteq> Str (socialName @ ''_'' @ to_str (fld socialUser ''social''))"
  shows "fst (getOrSignUp stub_User socialUser socialName st) = Inr Null"
  using find_social_None [OF assms]
  by (simp add: getOrSignUp_def stub_User_def store_User_def store_findOrCreate_def
      where_of_findOrCreate hasUser_created Let_def)

lemma getOrSignUp_store_rows:
  assumes "\<forall>r \<in> set (rows st).
             fld r ''social'' \<noteq> Str (socialName @ ''_'' @ to_str (fld socialUser ''social''))"
    and "U = sequelize_User \<or> U = stub_User"
  shows "rows (snd (getOrSignUp U socialUser socialName st))
         = rows st @ [new_row (next_id st) (defaults_of (findOrCreate_options socialUser socialName))]"
  using find_social_None [OF assms(1)] assms(2)
  by (auto simp add: getOrSignUp_def stub_User_def sequelize_User_def store_User_def
      store_findOrCreate_def where_of_findOrCreate hasUser_created hasUser_Promise Let_def)

text \<open>
  Against a store that answers with promises no social sign-in succeeds: a profile with
  an email is refused as already claimed, one without is refused as a failed sign-up.
\<close>

lemma social_sign_in_sequelize:
  "fst (signInGoogle sequelize_User socialUser appSecret st)
     = Inl (if truthy (fld socialUser ''email'') then EmailAlreadyClaimed else SignUpFailed)
   \<and> fst (signInFacebook sequelize_User socialUser appSecret st)
     = Inl (if truthy (fld socialUser ''email'') then EmailAlreadyClaimed else SignUpFailed)"
proof -
  obtain rg sg where g: "getOrSignUp sequelize_User socialUser SOCIAL_NAME_GOOGLE st = (rg, sg)"
    by (cases "getOrSignUp sequelize_User socialUser SOCIAL_NAME_GOOGLE st")
  obtain rf sf where f: "getOrSignUp sequelize_User socialUser SOCIAL_NAME_FACEBOOK st = (rf, sf)"
    by (cases "getOrSignUp sequelize_User socialUser SOCIAL_NAME_FACEBOOK st")
  have "rg = Inr Null" and "rf = Inr Null"
    using getOrSignUp_sequelize [of socialUser SOCIAL_NAME_GOOGLE st]
      getOrSignUp_sequelize [of socialUser SOCIAL_NAME_FACEBOOK st] g f
    by simp_all
  then show ?thesis
    using g f
    by (simp add: signInGoogle_def signInFacebook_def isSignedInBySocial_def
        isSignedIn_sequelize rethrow_def EmailAlreadyClaimed_def SignUpFailed_def)
qed

text \<open>
  C2 (the code departs from the claim). The claim: a first social sign-in creates the
  account keyed by provider and native id and returns it, and the flow fails with
  SignUpFailed only on a result that is neither found nor created. What the code does on
  a first sign-in with a profile without email: the account is created in the store, and
  the caller gets SignUpFailed. \<^verbatim>\<open>hasUser\<close> is false of a promise (the result of
  \<^verbatim>\<open>findOrCreate\<close> is not awaited) and false of a pair whose second component is
  \<^verbatim>\<open>true\<close> (a created row), so \<^verbatim>\<open>getOrSignUp\<close> returns \<^verbatim>\<open>null\<close> in both cases.
\<close>

theorem signInGoogle_first_sign_in_fails:
  assumes "\<not> truthy (fld socialUser ''email'')"
    and "\<forall>r \<in> set (rows st).
           fld r ''social'' \<noteq> Str (''google_'' @ to_str (fld socialUser ''social''))"
    and "U = sequelize_User \<or> U = stub_User"
  shows "fst (signInGoogle U socialUser appSecret st) = Inl SignUpFailed
       \<and> rows (snd (signInGoogle U socialUser appSecret st))
           = rows st @ [new_row (next_id st)
                          (defaults_of (findOrCreate_options socialUser SOCIAL_NAME_GOOGLE))]"
proof -
  have k: "\<forall>r \<in> set (rows st). fld r ''social'' \<noteq>
             Str (SOCIAL_NAME_GOOGLE @ ''_'' @ to_str (fld socialUser ''social''))"
    using assms(2) by (simp add: SOCIAL_NAME_GOOGLE_def)
  have n: "fst (getOrSignUp U socialUser SOCIAL_NAME_GOOGLE st) = Inr Null"
    using assms(3) getOrSignUp_sequelize getOrSignUp_stub_created [OF k] by blast
  have r: "rows (snd (getOrSignUp U socialUser SOCIAL_NAME_GOOGLE st))
         = rows st @ [new_row (next_id st)
                        (defaults_of (findOrCreate_options socialUser SOCIAL_NAME_GOOGLE))]"
    using k assms(3) by (rule getOrSignUp_store_rows)
  obtain res st' where g: "getOrSignUp U socialUser SOCIAL_NAME_GOOGLE st = (res, st')"
    by (cases "getOrSignUp U socialUser SOCIAL_NAME_GOOGLE st")
  show ?thesis
    using assms(1) n r g
    by (simp add: signInGoogle_def rethrow_def SignUpFailed_def)
qed

theorem signInGoogle_first_sign_in_fails_witness:
  "fst (signInGoogle sequelize_User [(''social'', Str ''g1'')] (Str ''secret'') empty_store)
     = Inl (Error ''Error: Failed to sign up.'')
   \<and> rows (snd (signInGoogle sequelize_User [(''social'', Str ''g1'')] (Str ''secret'') empty_store))
     = [[(''id'', Str ''user-1''), (''email'', Null), (''social'', Str ''google_g1''),
         (''password'', Null), (''name'', Null), (''nickname'', Null), (''photo'', Null),
         (''birthday'', Null), (''gender'', Null), (''phone'', Null),
         (''verified'', Bool False)]]"
proof -
  have a: "\<not> truthy (fld [(''social'', Str ''g1'')] ''email'')"
    by (simp add: fld_simps)
  have b: "\<forall>r \<in> set (rows empty_store).
             fld r ''social'' \<noteq> Str (''google_'' @ to_str (fld [(''social'', Str ''g1'')] ''social''))"
    by (simp add: empty_store_def)
  have c: "sequelize_User = sequelize_User \<or> sequelize_User = stub_User"
    by simp
  have d: "rows empty_store @ [new_row (next_id empty_store)
             (defaults_of (findOrCreate_options [(''social'', Str ''g1'')] SOCIAL_NAME_GOOGLE))]
           = [[(''id'', Str ''user-1''), (''email'', Null), (''social'', Str ''google_g1''),
               (''password'', Null), (''name'', Null), (''nickname'', Null), (''photo'', Null),
               (''birthday'', Null), (''gender'', Null), (''phone'', Null),
               (''verified'', Bool False)]]"
    by (simp add: store_defs findOrCreate_options_def or_else_def SOCIAL_NAME_GOOGLE_def
        fld_simps Let_def)
  show ?thesis
    using signInGoogle_first_sign_in_fails [OF a b c, of "Str ''secret''"] d
    by (simp add: SignUpFailed_def)
qed

lemma like_prefix: "like s (p @ ''%'') = (take (length p) s = p)"
  by (simp add: like_def)

lemma where_of_social:
  "where_of (findOne_options socialUser (social_queryOptions socialUser socialName))
   = [(''email'', fld socialUser ''email''),
      (''social'', Obj [(''$notLike'', Str (socialName @ ''%''))])]"
  by (simp add: findOne_options_def social_queryOptions_def spread_def where_of_def fld_simps)

lemma local_account_matches:
  assumes "fld r ''email'' = Str e" and "local_account provider r"
  shows "where_match [(''email'', Str e), (''social'', Obj [(''$notLike'', Str (provider @ ''%''))])] r"
  using assms
  by (auto simp add: where_match_def cond_holds_def local_account_def like_prefix split: jsval.splits)

lemma isSignedInBySocial_local:
  assumes "fld socialUser ''email'' = Str e"
    and "r \<in> set (rows st)" and "fld r ''email'' = Str e" and "local_account provider r"
    and "U = sequelize_User \<or> U = stub_User"
  shows "isSignedInBySocial U socialUser provider st"
proof -
  let ?w = "[(''email'', Str e), (''social'', Obj [(''$notLike'', Str (provider @ ''%''))])]"
  have "where_match ?w r"
    using assms(3,4) by (rule local_account_matches)
  with assms(2) have "find (where_match ?w) (rows st) \<noteq> None"
    by (auto simp add: find_None_iff)
  then obtain r' where "find (where_match ?w) (rows st) = Some r'"
    by blast
  then show ?thesis
    using assms(1,5)
    by (auto simp add: isSignedInBySocial_def isSignedIn_def where_of_social
        sequelize_User_def stub_User_def store_User_def store_findOne_def)
qed

text \<open>
  C3. A social sign-in whose profile carries an email (a non-empty string) that is the
  email of an account of the store which is local for the provider (its social key is
  absent or not prefixed by the provider's name) fails with EmailAlreadyClaimed and
  leaves the store as it is. This holds in every store state, so whichever of the two
  requests came first, and for both resolvers, whether the store answers with promises
  or with the rows themselves.
\<close>

theorem social_sign_in_email_already_claimed:
  assumes "fld socialUser ''email'' = Str e" and "e \<noteq> []"
    and "r \<in> set (rows st)" and "fld r ''email'' = Str e"
    and "U = sequelize_User \<or> U = stub_User"
  shows "(local_account SOCIAL_NAME_GOOGLE r \<longrightarrow>
            signInGoogle U socialUser appSecret st = (Inl EmailAlreadyClaimed, st))
       \<and> (local_account SOCIAL_NAME_FACEBOOK r \<longrightarrow>
            signInFacebook U socialUser appSecret st = (Inl EmailAlreadyClaimed, st))"
  using assms isSignedInBySocial_local [OF assms(1,3,4) _ assms(5)]
  by (simp add: signInGoogle_def signInFacebook_def rethrow_def EmailAlreadyClaimed_def)

theorem social_sign_in_email_already_claimed_witness:
  "local_account SOCIAL_NAME_GOOGLE (hd (rows sample_store))
   \<and> local_account SOCIAL_NAME_FACEBOOK (hd (rows sample_store))
   \<and> signInGoogle stub_User [(''social'', Str ''g1''), (''email'', Str ''a@x.com'')]
         (Str ''secret'') sample_store
       = (Inl EmailAlreadyClaimed, sample_store)
   \<and> signInFacebook stub_User [(''social'', Str ''g1''), (''email'', Str ''a@x.com'')]
         (Str ''secret'') sample_store
       = (Inl EmailAlreadyClaimed, sample_store)"
proof -
  let ?su = "[(''social'', Str ''g1''), (''email'', Str ''a@x.com'')]"
  let ?r = "hd (rows sample_store)"
  have a: "fld ?su ''email'' = Str ''a@x.com''"
    by (simp add: fld_simps)
  have b: "''a@x.com'' \<noteq> []"
    by simp
  have c: "?r \<in> set (rows sample_store)"
    by (simp add: sample_store_def)
  have d: "fld ?r ''email'' = Str ''a@x.com''"
    by (simp add: sample_store_def fld_new_row columns_def fld_simps)
  have e: "stub_User = sequelize_User \<or> stub_User = stub_User"
    by simp
  have g: "local_account SOCIAL_NAME_GOOGLE ?r" and f: "local_account SOCIAL_NAME_FACEBOOK ?r"
    by (simp_all add: local_account_def sample_store_def fld_new_row columns_def fld_simps)
  show ?thesis
    using social_sign_in_email_already_claimed [OF a b c d e, of "Str ''secret''"] g f
    by simp
qed


section \<open>Profile update by the owner\<close>

lemma userUpdated_filter_throws:
  "userUpdated_filter (Obj [(''user'', user)]) variables
   = Inl (TypeError ''Cannot read property id of undefined'')"
  by (simp add: userUpdated_filter_def fld_simps)

lemma updateProfile_success:
  assumes "updateProfile User auth args st ps = (Inr user, st', ps')"
  shows "ps' = publish USER_UPDATED (Obj [(''user'', user)]) ps"
  using assms
  by (auto simp add: updateProfile_def Let_def split: sum.splits if_splits prod.splits)

lemma userUpdated_subscribe_filtered:
  "subscribers (userUpdated_subscribe variables ps)
   = subscribers ps @ [\<lparr>sub_topic = USER_UPDATED,
                         sub_filter = Some (\<lambda>payload. userUpdated_filter payload variables),
                         received = []\<rparr>]"
  by (simp add: userUpdated_subscribe_def register_def withFilter_def asyncIterator_def)

text \<open>
  C4 (the code departs from the claim). The claim: a subscriber registered on the
  account-updated topic for account id X receives exactly the published updates of
  account X. What the code does: \<^verbatim>\<open>updateProfile\<close> publishes \<^verbatim>\<open>{ user }\<close>, and the
  predicate of \<^verbatim>\<open>userUpdated\<close> reads \<^verbatim>\<open>payload.userUpdated.id\<close>; on such a payload
  \<^verbatim>\<open>payload.userUpdated\<close> is \<^verbatim>\<open>undefined\<close> and the predicate throws. So after every
  successful \<^verbatim>\<open>updateProfile\<close>, whatever the store handle, requester and arguments,
  the update is in the list of publications and every subscriber that carries the
  predicate of \<^verbatim>\<open>userUpdated\<close> has received nothing from it, whichever id it asked for.
\<close>

theorem updateProfile_reaches_no_subscriber:
  assumes "updateProfile User auth args st ps = (Inr user, st', ps')"
    and "i < length (subscribers ps)"
    and "sub_filter (subscribers ps ! i) = Some (\<lambda>payload. userUpdated_filter payload variables)"
  shows "published ps' = published ps @ [(USER_UPDATED, Obj [(''user'', user)])]
       \<and> received (subscribers ps' ! i) = received (subscribers ps ! i)"
  using updateProfile_success [OF assms(1)] assms(2,3)
  by (simp add: publish_def deliver_def userUpdated_filter_throws)

lemma updateProfile_owner_run:
  "updateProfile sequelize_User (Obj [(''id'', Str ''user-1'')])
     [(''user'', Obj [(''id'', Str ''user-1''), (''name'', Str ''New'')])]
     sample_store ps
   = (Inr (Obj [(''id'', Str ''user-1''), (''email'', Str ''a@x.com''), (''social'', Null),
                (''password'', Null), (''name'', Str ''A''), (''nickname'', Null),
                (''photo'', Null), (''birthday'', Null), (''gender'', Null), (''phone'', Null),
                (''verified'', Null)]),
      sample_store,
      publish USER_UPDATED
        (Obj [(''user'',
               Obj [(''id'', Str ''user-1''), (''email'', Str ''a@x.com''), (''social'', Null),
                    (''password'', Null), (''name'', Str ''A''), (''nickname'', Null),
                    (''photo'', Null), (''birthday'', Null), (''gender'', Null),
                    (''phone'', Null), (''verified'', Null)])]) ps)"
  by (simp add: updateProfile_def store_defs fld_simps Let_def)

theorem updateProfile_reaches_no_subscriber_witness:
  "map received (subscribers (snd (snd
     (updateProfile sequelize_User (Obj [(''id'', Str ''user-1'')])
        [(''user'', Obj [(''id'', Str ''user-1''), (''name'', Str ''New'')])]
        sample_store (userUpdated_subscribe [(''id'', Str ''user-1'')] no_pubsub))))) = [[]]"
proof -
  let ?ps = "userUpdated_subscribe [(''id'', Str ''user-1'')] no_pubsub"
  have i: "0 < length (subscribers ?ps)"
    by (simp add: userUpdated_subscribe_filtered)
  have f: "sub_filter (subscribers ?ps ! 0)
           = Some (\<lambda>payload. userUpdated_filter payload [(''id'', Str ''user-1'')])"
    by (simp add: userUpdated_subscribe_filtered no_pubsub_def)
  have "received (subscribers (snd (snd
     (updateProfile sequelize_User (Obj [(''id'', Str ''user-1'')])
        [(''user'', Obj [(''id'', Str ''user-1''), (''name'', Str ''New'')])]
        sample_store ?ps))) ! 0) = received (subscribers ?ps ! 0)"
    using updateProfile_reaches_no_subscriber [OF updateProfile_owner_run [of ?ps] i f]
    by (simp add: updateProfile_owner_run)
  then show ?thesis
    by (simp add: updateProfile_owner_run publish_def userUpdated_subscribe_filtered no_pubsub_def)
qed

lemma apply_patch_user:
  assumes "map fst r = columns"
  shows "apply_patch (Obj [(''user'', patch)]) r = r"
proof -
  have "\<forall>x \<in> set r. fst x \<in> set columns"
    using assms by (metis list.set_map imageI)
  then have "\<forall>x \<in> set r. (case x of (c, old) \<Rightarrow>
        (c, case fld [(''user'', patch)] c of Undefined \<Rightarrow> old | v \<Rightarrow> v)) = x"
    by (auto simp add: columns_def fld_simps)
  then show ?thesis
    by (simp add: apply_patch_def map_idI)
qed

lemma store_update_user:
  assumes "well_formed st"
  shows "snd (store_update answer (Obj [(''user'', patch)]) opts extra st) = st"
proof -
  have "map (\<lambda>r. if where_match (where_of opts) r then apply_patch (Obj [(''user'', patch)]) r else r)
          (rows st) = rows st"
    using assms by (intro map_idI) (auto simp add: well_formed_def list_all_iff apply_patch_user)
  then show ?thesis
    by (simp add: store_update_def)
qed

text \<open>
  C5 (the code departs from the claim). The claim: an update by the owner applies the
  fields of the patch, and the returned account and every later read show the new
  values. What the code does: the values handed to \<^verbatim>\<open>User.update\<close> are the argument
  object \<^verbatim>\<open>args\<close>, whose one key is \<^verbatim>\<open>user\<close>, not the patch \<^verbatim>\<open>args.user\<close>; no column
  of an account has that name. On a store whose rows have the columns of the data model
  a successful \<^verbatim>\<open>updateProfile\<close> leaves the store exactly as it was, and the account it
  returns is the one the store held before the call.
\<close>

theorem updateProfile_leaves_account_as_it_was:
  assumes "well_formed st"
    and "U = sequelize_User \<or> U = stub_User"
    and "updateProfile U auth [(''user'', patch)] st ps = (Inr user, st', ps')"
  shows "st' = st
       \<and> (\<exists>targetId. property patch ''id'' = Inr targetId
            \<and> user = (case find (where_match [(''id'', targetId)]) (rows st) of
                        None \<Rightarrow> Null | Some r \<Rightarrow> Obj r))"
proof -
  obtain a where a: "property auth ''id'' = Inr a"
    using assms(3) by (cases "property auth ''id''") (simp_all add: updateProfile_def)
  obtain t where t: "property patch ''id'' = Inr t"
    using assms(3) a by (cases "property patch ''id''") (simp_all add: updateProfile_def fld_simps)
  have e: "strict_eq a t"
    using assms(3) a t by (cases "strict_eq a t") (simp_all add: updateProfile_def fld_simps)
  have u: "snd (update U (Obj [(''user'', patch)]) (Obj [(''where'', Obj [(''id'', t)])])
                  (Obj [(''raw'', Bool True)]) st) = st"
    using assms(2) store_update_user [OF assms(1)]
    by (auto simp add: sequelize_User_def stub_User_def store_User_def)
  have f: "await (findOne U (Obj [(''where'', Obj [(''id'', t)]), (''raw'', Bool True)]) st)
           = (case find (where_match [(''id'', t)]) (rows st) of None \<Rightarrow> Null | Some r \<Rightarrow> Obj r)"
    using assms(2)
    by (auto simp add: sequelize_User_def stub_User_def store_User_def store_findOne_def
        where_of_def fld_simps split: option.splits)
  show ?thesis
    using assms(3) a t e u f
    by (auto simp add: updateProfile_def fld_simps Let_def split: prod.splits)
qed

theorem updateProfile_leaves_account_as_it_was_witness:
  "fst (updateProfile sequelize_User (Obj [(''id'', Str ''user-1'')])
          [(''user'', Obj [(''id'', Str ''user-1''), (''name'', Str ''New'')])]
          sample_store no_pubsub)
     = Inr (Obj [(''id'', Str ''user-1''), (''email'', Str ''a@x.com''), (''social'', Null),
                 (''password'', Null), (''name'', Str ''A''), (''nickname'', Null),
                 (''photo'', Null), (''birthday'', Null), (''gender'', Null), (''phone'', Null),
                 (''verified'', Null)])
   \<and> fst (snd (updateProfile sequelize_User (Obj [(''id'', Str ''user-1'')])
          [(''user'', Obj [(''id'', Str ''user-1''), (''name'', Str ''New'')])]
          sample_store no_pubsub))
     = sample_store"
proof -
  have w: "well_formed sample_store"
    by (simp add: well_formed_def sample_store_def new_row_def columns_def)
  have u: "sequelize_User = sequelize_User \<or> sequelize_User = stub_User"
    by simp
  show ?thesis
    using updateProfile_leaves_account_as_it_was [OF w u updateProfile_owner_run [of no_pubsub]]
    by (simp add: updateProfile_owner_run)
qed


section \<open>What a successful sign-up publishes\<close>

lemma signUp_success:
  assumes "signUp U user appSecret st ps = (Inr res, st', ps')"
  shows "\<not> isSignedIn U user [] st
       \<and> (let created = create U
                 (Obj (spread user [(''password'', encryptPassword (fld user ''password''))]))
                 (Obj [(''raw'', Bool True)]) st;
               createdUser = await (fst created)
           in property res ''user'' = Inr createdUser
            \<and> st' = snd created
            \<and> ps' = publish USER_ADDED (Obj [(''userAdded'', createdUser)]) ps)"
  using assms
  by (auto simp add: signUp_def Let_def fld_simps split: if_splits prod.splits sum.splits)

lemma signUp_stub_run:
  "signUp stub_User [(''email'', Str ''a@x.com''), (''password'', Str pw), (''name'', Str ''A'')]
     (Str ''secret'') empty_store ps
   = (Inr (Obj [(''token'', Str ''jwt.user-1.User.secret''),
                (''user'',
                 Obj [(''id'', Str ''user-1''), (''email'', Str ''a@x.com''), (''social'', Null),
                      (''password'', Str (''$hash$'' @ pw)), (''name'', Str ''A''),
                      (''nickname'', Null), (''photo'', Null), (''birthday'', Null),
                      (''gender'', Null), (''phone'', Null), (''verified'', Null)])]),
      \<lparr>rows = [[(''id'', Str ''user-1''), (''email'', Str ''a@x.com''), (''social'', Null),
                (''password'', Str (''$hash$'' @ pw)), (''name'', Str ''A''),
                (''nickname'', Null), (''photo'', Null), (''birthday'', Null),
                (''gender'', Null), (''phone'', Null), (''verified'', Null)]],
       next_id = 2\<rparr>,
      publish USER_ADDED
        (Obj [(''userAdded'',
               Obj [(''id'', Str ''user-1''), (''email'', Str ''a@x.com''), (''social'', Null),
                    (''password'', Str (''$hash$'' @ pw)), (''name'', Str ''A''),
                    (''nickname'', Null), (''photo'', Null), (''birthday'', Null),
                    (''gender'', Null), (''phone'', Null), (''verified'', Null)])]) ps)"
  by (simp add: signUp_def isSignedIn_def findOne_options_def spread_def encryptPassword_def
      jwt_sign_def Role_User_def store_defs fld_simps Let_def)

text \<open>
  C7, as the claim states it, fails: two sign-ups against the same empty store that
  differ in the password only (\<^verbatim>\<open>p\<close> and \<^verbatim>\<open>q\<close>) both succeed and publish different
  payloads; the payload of the first carries the hash of \<^verbatim>\<open>p\<close> in its password field.
\<close>

theorem signUp_payload_counterexample:
  "published (snd (snd (signUp stub_User
       [(''email'', Str ''a@x.com''), (''password'', Str ''p''), (''name'', Str ''A'')]
       (Str ''secret'') empty_store no_pubsub)))
     = [(''USER_ADDED'',
         Obj [(''userAdded'',
               Obj [(''id'', Str ''user-1''), (''email'', Str ''a@x.com''), (''social'', Null),
                    (''password'', encryptPassword (Str ''p'')), (''name'', Str ''A''),
                    (''nickname'', Null), (''photo'', Null), (''birthday'', Null),
                    (''gender'', Null), (''phone'', Null), (''verified'', Null)])])]
   \<and> published (snd (snd (signUp stub_User
       [(''email'', Str ''a@x.com''), (''password'', Str ''p''), (''name'', Str ''A'')]
       (Str ''secret'') empty_store no_pubsub)))
     \<noteq> published (snd (snd (signUp stub_User
       [(''email'', Str ''a@x.com''), (''password'', Str ''q''), (''name'', Str ''A'')]
       (Str ''secret'') empty_store no_pubsub)))"
  by (simp add: signUp_stub_run publish_def no_pubsub_def USER_ADDED_def encryptPassword_def)

text \<open>
  C7, amended. For every successful local sign-up, whatever the store handle, the
  payload published on \<^verbatim>\<open>USER_ADDED\<close> is \<^verbatim>\<open>{ userAdded: createdUser }\<close> with the very
  account that is returned to the caller: the row the store created from the sign-up
  input with the password replaced by its hash. Nothing is removed from it before it is
  published.
\<close>

theorem signUp_publishes_created_account:
  assumes "signUp U user appSecret st ps = (Inr res, st', ps')"
  shows "(let createdUser = await (fst (create U
                (Obj (spread user [(''password'', encryptPassword (fld user ''password''))]))
                (Obj [(''raw'', Bool True)]) st))
          in property res ''user'' = Inr createdUser
           \<and> published ps' = published ps @ [(USER_ADDED, Obj [(''userAdded'', createdUser)])])"
  using signUp_success [OF assms] by (simp add: Let_def publish_def)

theorem signUp_publishes_created_account_witness:
  "published (snd (snd (signUp stub_User
       [(''email'', Str ''a@x.com''), (''password'', Str ''p''), (''name'', Str ''A'')]
       (Str ''secret'') empty_store no_pubsub)))
     = [(USER_ADDED,
         Obj [(''userAdded'',
               Obj [(''id'', Str ''user-1''), (''email'', Str ''a@x.com''), (''social'', Null),
                    (''password'', Str ''$hash$p''), (''name'', Str ''A''),
                    (''nickname'', Null), (''photo'', Null), (''birthday'', Null),
                    (''gender'', Null), (''phone'', Null), (''verified'', Null)])])]"
  using signUp_publishes_created_account [OF signUp_stub_run [of "''p''" no_pubsub]]
  by (simp add: signUp_stub_run publish_def no_pubsub_def)

section \<open>The verified flag of a created account\<close>

lemma signInGoogle_stub_email_run:
  "signInGoogle stub_User [(''social'', Str ''g1''), (''email'', Str ''a@x.com'')]
     (Str ''secret'') empty_store
   = (Inl SignUpFailed,
      \<lparr>rows = [[(''id'', Str ''user-1''), (''email'', Str ''a@x.com''),
                (''social'', Str ''google_g1''), (''password'', Null), (''name'', Null),
                (''nickname'', Null), (''photo'', Null), (''birthday'', Null),
                (''gender'', Null), (''phone'', Null), (''verified'', Str ''a@x.com'')]],
       next_id = 2\<rparr>)"
  by (simp add: signInGoogle_def isSignedInBySocial_def isSignedIn_def where_of_social
      getOrSignUp_def where_of_findOrCreate hasUser_created rethrow_def SignUpFailed_def
      findOrCreate_options_def or_else_def SOCIAL_NAME_GOOGLE_def store_defs fld_simps Let_def)

text \<open>
  C8, as the claim states it, fails on both paths. A social sign-in with the email
  \<^verbatim>\<open>a@x.com\<close> creates an account whose verified value is that string, not the boolean
  \<^verbatim>\<open>true\<close>; a local sign-up with the same email creates an account whose verified value
  is \<^verbatim>\<open>null\<close>.
\<close>

theorem verified_flag_counterexample:
  "fld (last (rows (snd (signInGoogle stub_User
          [(''social'', Str ''g1''), (''email'', Str ''a@x.com'')] (Str ''secret'') empty_store))))
       ''email'' = Str ''a@x.com''
   \<and> fld (last (rows (snd (signInGoogle stub_User
          [(''social'', Str ''g1''), (''email'', Str ''a@x.com'')] (Str ''secret'') empty_store))))
       ''verified'' = Str ''a@x.com''
   \<and> fld (last (rows (fst (snd (signUp stub_User
          [(''email'', Str ''a@x.com''), (''password'', Str ''p''), (''name'', Str ''A'')]
          (Str ''secret'') empty_store no_pubsub)))))
       ''email'' = Str ''a@x.com''
   \<and> fld (last (rows (fst (snd (signUp stub_User
          [(''email'', Str ''a@x.com''), (''password'', Str ''p''), (''name'', Str ''A'')]
          (Str ''secret'') empty_store no_pubsub)))))
       ''verified'' = Null"
  by (simp add: signUp_stub_run signInGoogle_stub_email_run fld_simps)

text \<open>
  C8, amended. An account that the social find-or-create path creates has a verified
  value that is truthy exactly when the social profile carried a non-empty email, and is
  the boolean \<^verbatim>\<open>false\<close> when it did not. An account that local sign-up creates has the
  verified value of the sign-up input (\<^verbatim>\<open>null\<close> when the input has none), whatever its
  email: \<^verbatim>\<open>signUp\<close> derives no flag from the email.
\<close>

theorem created_account_verified_flag:
  assumes "U = sequelize_User \<or> U = stub_User"
  shows "((\<forall>r \<in> set (rows st).
             fld r ''social'' \<noteq> Str (socialName @ ''_'' @ to_str (fld socialUser ''social'')))
          \<longrightarrow> (let r = last (rows (snd (getOrSignUp U socialUser socialName st)))
               in fld r ''social'' = Str (socialName @ ''_'' @ to_str (fld socialUser ''social''))
                \<and> truthy (fld r ''verified'') = truthy (fld socialUser ''email'')
                \<and> (\<not> truthy (fld socialUser ''email'') \<longrightarrow> fld r ''verified'' = Bool False)))
       \<and> (signUp U user appSecret st ps = (Inr res, st', ps')
          \<longrightarrow> fld (last (rows st')) ''verified''
               = (case fld user ''verified'' of Undefined \<Rightarrow> Null | v \<Rightarrow> v))"
proof -
  have social: "let r = last (rows (snd (getOrSignUp U socialUser socialName st)))
      in fld r ''social'' = Str (socialName @ ''_'' @ to_str (fld socialUser ''social''))
       \<and> truthy (fld r ''verified'') = truthy (fld socialUser ''email'')
       \<and> (\<not> truthy (fld socialUser ''email'') \<longrightarrow> fld r ''verified'' = Bool False)"
    if k: "\<forall>r \<in> set (rows st).
             fld r ''social'' \<noteq> Str (socialName @ ''_'' @ to_str (fld socialUser ''social''))"
  proof -
    have "truthy (case or_else v (Bool False) of Undefined \<Rightarrow> Null | w \<Rightarrow> w) = truthy v" for v
      by (cases v) (simp_all add: or_else_def)
    moreover have "\<not> truthy v \<Longrightarrow> (case or_else v (Bool False) of Undefined \<Rightarrow> Null | w \<Rightarrow> w)
                     = Bool False" for v
      by (simp add: or_else_def)
    ultimately show ?thesis
      using getOrSignUp_store_rows [OF k assms]
      by (simp add: Let_def fld_new_row columns_def findOrCreate_options_def defaults_of_def
          fld_simps)
  qed
  have local: "fld (last (rows st')) ''verified''
               = (case fld user ''verified'' of Undefined \<Rightarrow> Null | v \<Rightarrow> v)"
    if s: "signUp U user appSecret st ps = (Inr res, st', ps')"
    using signUp_success [OF s] assms
    by (auto simp add: Let_def sequelize_User_def stub_User_def store_User_def store_create_def
        fld_new_row columns_def spread_def fld_update)
  show ?thesis
    using social local by blast
qed

theorem created_account_verified_flag_witness:
  "fld (last (rows (snd (getOrSignUp stub_User [(''social'', Str ''g1'')] ''google'' empty_store))))
     ''verified'' = Bool False
   \<and> fld (last (rows (fst (snd (signUp stub_User
          [(''email'', Str ''a@x.com''), (''password'', Str ''p''), (''name'', Str ''A'')]
          (Str ''secret'') empty_store no_pubsub)))))
       ''verified'' = Null"
proof -
  have u: "stub_User = sequelize_User \<or> stub_User = stub_User"
    by simp
  have k: "\<forall>r \<in> set (rows empty_store).
             fld r ''social'' \<noteq> Str (''google'' @ ''_'' @ to_str (fld [(''social'', Str ''g1'')] ''social''))"
    by (simp add: empty_store_def)
  have e: "\<not> truthy (fld [(''social'', Str ''g1'')] ''email'')"
    by (simp add: fld_simps)
  show ?thesis
    using created_account_verified_flag [OF u, of empty_store "''google''" "[(''social'', Str ''g1'')]"
        "[(''email'', Str ''a@x.com''), (''password'', Str ''p''), (''name'', Str ''A'')]"
        "Str ''secret''" no_pubsub] k e
    by (simp add: Let_def signUp_stub_run fld_simps)
qed


section \<open>The subscription on created accounts\<close>

lemma deliver_unfiltered:
  assumes "sub_topic s = topic" and "sub_filter s = None"
  shows "received (deliver topic payload s) = received s @ [payload]"
  using assms by (simp add: deliver_def)

lemma userAdded_subscribe_unfiltered:
  "subscribers (userAdded_subscribe args ps)
   = subscribers ps @ [\<lparr>sub_topic = USER_ADDED, sub_filter = None, received = []\<rparr>]"
  by (simp add: userAdded_subscribe_def register_def asyncIterator_def)

lemma publish_all_unfiltered:
  assumes "n < length (subscribers q)"
    and "sub_topic (subscribers q ! n) = USER_ADDED" and "sub_filter (subscribers q ! n) = None"
  shows "received (subscribers (publish_all events q) ! n)
         = received (subscribers q ! n)
           @ map snd (filter (\<lambda>(topic, payload). topic = USER_ADDED) events)"
  using assms
proof (induction events arbitrary: q)
  case Nil
  then show ?case by (simp add: publish_all_def)
next
  case (Cons e events)
  obtain topic payload where e: "e = (topic, payload)"
    by (cases e)
  let ?q = "publish topic payload q"
  have s: "subscribers ?q ! n = deliver topic payload (subscribers q ! n)"
    using Cons.prems(1) by (simp add: publish_def)
  have l: "n < length (subscribers ?q)"
    using Cons.prems(1) by (simp add: publish_def)
  have t: "sub_topic (subscribers ?q ! n) = USER_ADDED"
    and f: "sub_filter (subscribers ?q ! n) = None"
    using Cons.prems(2,3) s by (simp_all add: deliver_def)
  have r: "received (subscribers ?q ! n)
           = received (subscribers q ! n) @ (if topic = USER_ADDED then [payload] else [])"
    using Cons.prems(2,3) s by (simp add: deliver_def)
  have "publish_all (e # events) q = publish_all events ?q"
    by (simp add: publish_all_def e)
  then show ?case
    using Cons.IH [OF l t f] r e by simp
qed

text \<open>
  C9. The \<^verbatim>\<open>userAdded\<close> subscription registers a plain iterator on \<^verbatim>\<open>USER_ADDED\<close>, with
  no predicate, whatever arguments the subscriber gave. Its stream is therefore every
  payload published on that topic after the registration, in publish order, whatever
  the payload is; and a successful \<^verbatim>\<open>signUp\<close> adds the creation event of its account,
  \<^verbatim>\<open>{ userAdded: createdUser }\<close>, to the stream of every subscriber registered on the
  topic without a predicate.
\<close>

theorem userAdded_reaches_every_subscriber:
  "sub_filter (last (subscribers (userAdded_subscribe args ps))) = None
   \<and> received (subscribers (publish_all events (userAdded_subscribe args ps))
               ! length (subscribers ps))
     = map snd (filter (\<lambda>(topic, payload). topic = USER_ADDED) events)
   \<and> (signUp U user appSecret st ps = (Inr res, st', ps') \<longrightarrow>
        (\<exists>createdUser. property res ''user'' = Inr createdUser
           \<and> length (subscribers ps') = length (subscribers ps)
           \<and> (\<forall>i < length (subscribers ps).
                sub_topic (subscribers ps ! i) = USER_ADDED \<and> sub_filter (subscribers ps ! i) = None
                \<longrightarrow> received (subscribers ps' ! i)
                     = received (subscribers ps ! i) @ [Obj [(''userAdded'', createdUser)]])))"
proof -
  let ?q = "userAdded_subscribe args ps"
  have s: "subscribers ?q ! length (subscribers ps)
           = \<lparr>sub_topic = USER_ADDED, sub_filter = None, received = []\<rparr>"
    by (simp add: userAdded_subscribe_unfiltered)
  have l: "length (subscribers ps) < length (subscribers ?q)"
    by (simp add: userAdded_subscribe_unfiltered)
  have stream: "received (subscribers (publish_all events ?q) ! length (subscribers ps))
                = map snd (filter (\<lambda>(topic, payload). topic = USER_ADDED) events)"
    using publish_all_unfiltered [OF l, of events] s by simp
  have one: "\<exists>createdUser. property res ''user'' = Inr createdUser
           \<and> length (subscribers ps') = length (subscribers ps)
           \<and> (\<forall>i < length (subscribers ps).
                sub_topic (subscribers ps ! i) = USER_ADDED \<and> sub_filter (subscribers ps ! i) = None
                \<longrightarrow> received (subscribers ps' ! i)
                     = received (subscribers ps ! i) @ [Obj [(''userAdded'', createdUser)]])"
    if r: "signUp U user appSecret st ps = (Inr res, st', ps')"
    using signUp_success [OF r]
    by (auto simp add: Let_def publish_def deliver_unfiltered)
  show ?thesis
    using stream one by (simp add: userAdded_subscribe_unfiltered)
qed

theorem userAdded_reaches_every_subscriber_witness:
  "map received (subscribers (snd (snd (signUp stub_User
       [(''email'', Str ''a@x.com''), (''password'', Str ''p''), (''name'', Str ''A'')]
       (Str ''secret'') empty_store
       (userAdded_subscribe [] (userAdded_subscribe [] no_pubsub))))))
   = [[Obj [(''userAdded'',
             Obj [(''id'', Str ''user-1''), (''email'', Str ''a@x.com''), (''social'', Null),
                  (''password'', Str ''$hash$p''), (''name'', Str ''A''), (''nickname'', Null),
                  (''photo'', Null), (''birthday'', Null), (''gender'', Null),
                  (''phone'', Null), (''verified'', Null)])]],
      [Obj [(''userAdded'',
             Obj [(''id'', Str ''user-1''), (''email'', Str ''a@x.com''), (''social'', Null),
                  (''password'', Str ''$hash$p''), (''name'', Str ''A''), (''nickname'', Null),
                  (''photo'', Null), (''birthday'', Null), (''gender'', Null),
                  (''phone'', Null), (''verified'', Null)])]]]"
  using userAdded_reaches_every_subscriber
    [of "[]" no_pubsub "[]" stub_User
        "[(''email'', Str ''a@x.com''), (''password'', Str ''p''), (''name'', Str ''A'')]"
        "Str ''secret''" empty_store]
  by (simp add: signUp_stub_run pubsub_defs)

section \<open>The two social resolvers\<close>

text \<open>
  The literal reading first: for any store handle, when the responses to the two
  resolvers' requests are the very same values, the outcomes are equal. A store that
  keeps accounts under their social keys never answers the two find-or-create requests
  alike, so this says nothing about such a store; the comparison that does is the one
  after it.
\<close>

lemma signIn_same_responses_agree:
  assumes "findOne U (findOne_options socialUser (social_queryOptions socialUser SOCIAL_NAME_GOOGLE)) st
           = findOne U (findOne_options socialUser (social_queryOptions socialUser SOCIAL_NAME_FACEBOOK)) st"
    and "fst (findOrCreate U (findOrCreate_options socialUser SOCIAL_NAME_GOOGLE) st)
         = fst (findOrCreate U (findOrCreate_options socialUser SOCIAL_NAME_FACEBOOK) st)"
  shows "fst (signInGoogle U socialUser appSecret st) = fst (signInFacebook U socialUser appSecret st)"
proof -
  have a: "isSignedInBySocial U socialUser SOCIAL_NAME_GOOGLE st
           = isSignedInBySocial U socialUser SOCIAL_NAME_FACEBOOK st"
    using assms(1) by (simp add: isSignedInBySocial_def isSignedIn_def)
  have b: "fst (getOrSignUp U socialUser SOCIAL_NAME_GOOGLE st)
           = fst (getOrSignUp U socialUser SOCIAL_NAME_FACEBOOK st)"
    using assms(2) by (auto simp add: getOrSignUp_def split: prod.splits)
  show ?thesis
    using a b
    by (auto simp add: signInGoogle_def signInFacebook_def Let_def split: prod.splits sum.splits)
qed

lemma fld_swap_row:
  "fld (swap_row r) k = (if k = ''social'' then swap_social (fld r ''social'') else fld r k)"
proof (induction r)
  case Nil
  then show ?case by (simp add: swap_row_def fld_simps swap_social_def)
next
  case (Cons p r)
  obtain c v where p: "p = (c, v)" by (cases p)
  from Cons show ?case
    by (auto simp add: p swap_row_def fld_simps)
qed

lemma swap_provider_google: "(take 8 (swap_provider s) = ''facebook'') = (take 6 s = ''google'')"
  by (auto simp add: swap_provider_def)

lemma swap_provider_key:
  "(swap_provider s = ''facebook_'' @ n) = (s = ''google_'' @ n)"
proof (cases "take 6 s = ''google''")
  case True
  then have s: "s = ''google'' @ drop 6 s"
    by (metis append_take_drop_id)
  show ?thesis
  proof
    assume "swap_provider s = ''facebook_'' @ n"
    then have "drop 6 s = ''_'' @ n"
      using True by (simp add: swap_provider_def)
    with s show "s = ''google_'' @ n" by simp
  next
    assume "s = ''google_'' @ n"
    then show "swap_provider s = ''facebook_'' @ n"
      by (simp add: swap_provider_def)
  qed
next
  case False
  then have "s \<noteq> ''google_'' @ n"
    by auto
  moreover have "swap_provider s \<noteq> ''facebook_'' @ n"
  proof (cases "take 8 s = ''facebook''")
    case True
    then show ?thesis using False by (simp add: swap_provider_def)
  next
    case f: False
    then have "s \<noteq> ''facebook_'' @ n" by auto
    then show ?thesis using False f by (simp add: swap_provider_def)
  qed
  ultimately show ?thesis by simp
qed

lemma like_google: "like s ''google%'' = (take 6 s = ''google'')"
  by (simp add: like_def eval_nat_numeral)

lemma like_facebook: "like s ''facebook%'' = (take 8 s = ''facebook'')"
  by (simp add: like_def eval_nat_numeral)

lemma where_match_swap_notLike:
  "where_match [(''email'', e), (''social'', Obj [(''$notLike'', Str ''facebook%'')])] (swap_row r)
   = where_match [(''email'', e), (''social'', Obj [(''$notLike'', Str ''google%'')])] r"
  by (auto simp add: where_match_def cond_holds_def fld_swap_row swap_social_def like_google
      like_facebook swap_provider_google split: jsval.splits)

lemma where_match_swap_key:
  "where_match [(''social'', Str (''facebook_'' @ n))] (swap_row r)
   = where_match [(''social'', Str (''google_'' @ n))] r"
  using swap_provider_key [of _ n]
  by (auto simp add: where_match_def cond_holds_def fld_swap_row swap_social_def split: jsval.splits)


lemma find_map_pred: "find P (map f xs) = map_option f (find (\<lambda>x. P (f x)) xs)"
  by (induction xs) simp_all

lemma find_swap_notLike:
  "find (where_match [(''email'', e),
                      (''social'', Obj [(''$notLike'', Str (SOCIAL_NAME_FACEBOOK @ ''%''))])])
        (map swap_row rs)
   = map_option swap_row
       (find (where_match [(''email'', e),
                           (''social'', Obj [(''$notLike'', Str (SOCIAL_NAME_GOOGLE @ ''%''))])]) rs)"
  using where_match_swap_notLike [of e]
  by (simp add: find_map_pred SOCIAL_NAME_GOOGLE_def SOCIAL_NAME_FACEBOOK_def)

lemma find_swap_key:
  "find (where_match [(''social'', Str (SOCIAL_NAME_FACEBOOK @ CHR ''_'' # n))]) (map swap_row rs)
   = map_option swap_row
       (find (where_match [(''social'', Str (SOCIAL_NAME_GOOGLE @ CHR ''_'' # n))]) rs)"
  using where_match_swap_key [of n]
  by (simp add: find_map_pred SOCIAL_NAME_GOOGLE_def SOCIAL_NAME_FACEBOOK_def)

lemma isSignedInBySocial_swap:
  assumes "U = sequelize_User \<or> U = stub_User"
  shows "isSignedInBySocial U socialUser SOCIAL_NAME_FACEBOOK (swap_store st)
         = isSignedInBySocial U socialUser SOCIAL_NAME_GOOGLE st"
  using assms
  by (auto simp add: isSignedInBySocial_def isSignedIn_def where_of_social sequelize_User_def
      stub_User_def store_User_def store_findOne_def swap_store_def find_swap_notLike
      split: option.splits)

lemma swap_new_row:
  "swap_row (new_row m (defaults_of (findOrCreate_options socialUser SOCIAL_NAME_GOOGLE)))
   = new_row m (defaults_of (findOrCreate_options socialUser SOCIAL_NAME_FACEBOOK))"
  by (simp add: new_row_def columns_def swap_row_def defaults_of_def findOrCreate_options_def
      fld_simps swap_social_def swap_provider_def SOCIAL_NAME_GOOGLE_def SOCIAL_NAME_FACEBOOK_def
      Let_def)

lemma getOrSignUp_stub_cases:
  "getOrSignUp stub_User socialUser socialName st
   = (case find (where_match [(''social'', Str (socialName @ ''_'' @ to_str (fld socialUser ''social'')))])
             (rows st) of
        Some r \<Rightarrow> (Inr (Obj r), st)
      | None \<Rightarrow> (Inr Null,
                 st\<lparr>rows := rows st @ [new_row (next_id st)
                                          (defaults_of (findOrCreate_options socialUser socialName))],
                    next_id := Suc (next_id st)\<rparr>))"
  by (simp add: getOrSignUp_def stub_User_def store_User_def store_findOrCreate_def
      where_of_findOrCreate hasUser_def Let_def split: option.splits)

lemma getOrSignUp_sequelize_cases:
  "getOrSignUp sequelize_User socialUser socialName st
   = (case find (where_match [(''social'', Str (socialName @ ''_'' @ to_str (fld socialUser ''social'')))])
             (rows st) of
        Some r \<Rightarrow> (Inr Null, st)
      | None \<Rightarrow> (Inr Null,
                 st\<lparr>rows := rows st @ [new_row (next_id st)
                                          (defaults_of (findOrCreate_options socialUser socialName))],
                    next_id := Suc (next_id st)\<rparr>))"
  by (simp add: getOrSignUp_def sequelize_User_def store_User_def store_findOrCreate_def
      where_of_findOrCreate hasUser_def Let_def split: option.splits)

lemma getOrSignUp_swap:
  assumes "U = sequelize_User \<or> U = stub_User"
  shows "getOrSignUp U socialUser SOCIAL_NAME_FACEBOOK (swap_store st)
         = (case getOrSignUp U socialUser SOCIAL_NAME_GOOGLE st of
              (res, st') \<Rightarrow>
                (map_sum (\<lambda>e. e) (\<lambda>v. case v of Obj r \<Rightarrow> Obj (swap_row r) | _ \<Rightarrow> v) res,
                 swap_store st'))"
  using assms
  by (auto simp add: getOrSignUp_stub_cases getOrSignUp_sequelize_cases swap_store_def
      find_swap_key swap_new_row split: option.splits)


lemma signIn_swap:
  assumes "U = sequelize_User \<or> U = stub_User"
  shows "signInFacebook U socialUser appSecret (swap_store st)
         = (case signInGoogle U socialUser appSecret st of
              (res, st') \<Rightarrow> (map_sum (\<lambda>e. e) swap_result res, swap_store st'))"
proof -
  obtain res st' where g: "getOrSignUp U socialUser SOCIAL_NAME_GOOGLE st = (res, st')"
    by (cases "getOrSignUp U socialUser SOCIAL_NAME_GOOGLE st")
  have f: "getOrSignUp U socialUser SOCIAL_NAME_FACEBOOK (swap_store st)
           = (map_sum (\<lambda>e. e) (\<lambda>v. case v of Obj r \<Rightarrow> Obj (swap_row r) | _ \<Rightarrow> v) res,
              swap_store st')"
    using getOrSignUp_swap [OF assms, of socialUser st] g by simp
  show ?thesis
  proof (cases res)
    case (Inl err)
    then show ?thesis
      using g f isSignedInBySocial_swap [OF assms, of socialUser st]
      by (simp add: signInGoogle_def signInFacebook_def)
  next
    case (Inr user)
    then show ?thesis
      using g f isSignedInBySocial_swap [OF assms, of socialUser st]
      by (cases user)
        (simp_all add: signInGoogle_def signInFacebook_def swap_result_def fld_swap_row)
  qed
qed

lemma signIn_stub_key:
  assumes "getOrSignUp stub_User socialUser socialName st = (Inr user, st')"
    and "truthy user"
  shows "\<exists>u. user = Obj u
           \<and> fld u ''social'' = Str (socialName @ ''_'' @ to_str (fld socialUser ''social''))"
proof -
  let ?w = "[(''social'', Str (socialName @ ''_'' @ to_str (fld socialUser ''social'')))]"
  obtain r where r: "find (where_match ?w) (rows st) = Some r" and u: "user = Obj r"
    using assms by (auto simp add: getOrSignUp_stub_cases split: option.splits)
  have "where_match ?w r"
    using r by (auto simp add: find_Some_iff)
  then show ?thesis
    using u by (simp add: where_match_def cond_holds_def)
qed

lemma signInGoogle_success:
  assumes "fst (signInGoogle U socialUser appSecret st) = Inr res"
  shows "\<exists>user st' i. getOrSignUp U socialUser SOCIAL_NAME_GOOGLE st = (Inr user, st')
           \<and> truthy user \<and> res = Obj [(''token'', i), (''user'', user)]"
proof -
  obtain r st' where g: "getOrSignUp U socialUser SOCIAL_NAME_GOOGLE st = (r, st')"
    by (cases "getOrSignUp U socialUser SOCIAL_NAME_GOOGLE st")
  show ?thesis
    using assms g
    by (cases r) (auto simp add: signInGoogle_def Let_def split: if_splits sum.splits)
qed

lemma signInFacebook_success:
  assumes "fst (signInFacebook U socialUser appSecret st) = Inr res"
  shows "\<exists>user st' i. getOrSignUp U socialUser SOCIAL_NAME_FACEBOOK st = (Inr user, st')
           \<and> truthy user \<and> res = Obj [(''token'', i), (''user'', user)]"
proof -
  obtain r st' where g: "getOrSignUp U socialUser SOCIAL_NAME_FACEBOOK st = (r, st')"
    by (cases "getOrSignUp U socialUser SOCIAL_NAME_FACEBOOK st")
  show ?thesis
    using assms g
    by (cases r) (auto simp add: signInFacebook_def Let_def split: if_splits sum.splits)
qed

lemma signIn_success_key:
  assumes "U = sequelize_User \<or> U = stub_User"
  shows "(fst (signInGoogle U socialUser appSecret st) = Inr res \<longrightarrow>
            (\<exists>u. property res ''user'' = Inr (Obj u)
               \<and> fld u ''social'' = Str (''google_'' @ to_str (fld socialUser ''social''))))
       \<and> (fst (signInFacebook U socialUser appSecret st) = Inr res \<longrightarrow>
            (\<exists>u. property res ''user'' = Inr (Obj u)
               \<and> fld u ''social'' = Str (''facebook_'' @ to_str (fld socialUser ''social''))))"
proof (cases "U = sequelize_User")
  case True
  then show ?thesis
    using social_sign_in_sequelize [of socialUser appSecret st] by simp
next
  case False
  then have U: "U = stub_User" using assms by simp
  have "\<exists>u. property res ''user'' = Inr (Obj u)
          \<and> fld u ''social'' = Str (SOCIAL_NAME_GOOGLE @ ''_'' @ to_str (fld socialUser ''social''))"
    if "fst (signInGoogle stub_User socialUser appSecret st) = Inr res"
    using signInGoogle_success [OF that] signIn_stub_key
    by (fastforce simp add: fld_simps)
  moreover have "\<exists>u. property res ''user'' = Inr (Obj u)
          \<and> fld u ''social'' = Str (SOCIAL_NAME_FACEBOOK @ ''_'' @ to_str (fld socialUser ''social''))"
    if "fst (signInFacebook stub_User socialUser appSecret st) = Inr res"
    using signInFacebook_success [OF that] signIn_stub_key
    by (fastforce simp add: fld_simps)
  ultimately show ?thesis
    using U by (simp add: SOCIAL_NAME_GOOGLE_def SOCIAL_NAME_FACEBOOK_def)
qed


lemma signInGoogle_social_run:
  "signInGoogle stub_User [(''social'', Str ''g1'')] (Str ''secret'') social_store
   = (Inr (Obj [(''token'', Str ''jwt.user-2.User.secret''),
                (''user'',
                 Obj [(''id'', Str ''user-2''), (''email'', Null), (''social'', Str ''google_g1''),
                      (''password'', Null), (''name'', Null), (''nickname'', Null),
                      (''photo'', Null), (''birthday'', Null), (''gender'', Null),
                      (''phone'', Null), (''verified'', Bool False)])]),
      social_store)"
  by (simp add: signInGoogle_def getOrSignUp_stub_cases SOCIAL_NAME_GOOGLE_def signIn_def
      jwt_sign_def Role_User_def social_store_def where_match_def cond_holds_def new_row_def
      columns_def digit_def fld_simps)

lemma signInFacebook_social_run:
  "fst (signInFacebook stub_User [(''social'', Str ''g1'')] (Str ''secret'') social_store)
   = Inl SignUpFailed"
  by (simp add: signInFacebook_def getOrSignUp_stub_cases SOCIAL_NAME_FACEBOOK_def rethrow_def
      SignUpFailed_def social_store_def where_match_def cond_holds_def new_row_def
      columns_def digit_def fld_simps)

text \<open>
  On one and the same store state the two resolvers need not agree, because the store
  answers them differently: in \<open>social_store\<close> the key \<^verbatim>\<open>google_g1\<close> is found and the
  key \<^verbatim>\<open>facebook_g1\<close> is not.
\<close>

lemma signIn_same_state_differs:
  "fst (signInGoogle stub_User [(''social'', Str ''g1'')] (Str ''secret'') social_store)
   \<noteq> fst (signInFacebook stub_User [(''social'', Str ''g1'')] (Str ''secret'') social_store)"
  by (simp add: signInGoogle_social_run signInFacebook_social_run)

text \<open>
  C10. \<^verbatim>\<open>signInGoogle\<close> and \<^verbatim>\<open>signInFacebook\<close> differ only in the provider prefix. For
  the same social profile and secret, on two stores that hold the same accounts up to
  the exchange of \<^verbatim>\<open>google\<close> and \<^verbatim>\<open>facebook\<close> at the head of the social keys (so that
  the store's responses to the two resolvers are the same up to that prefix),
  \<^verbatim>\<open>signInFacebook\<close> returns what \<^verbatim>\<open>signInGoogle\<close> returns: the same token and the same
  user up to the prefix of its social key, or the same error in the same cases, and it
  leaves the corresponding store. The prefixes are the ones named: an account returned
  by \<^verbatim>\<open>signInGoogle\<close> has the social key \<^verbatim>\<open>google_\<close> followed by the native id, one
  returned by \<^verbatim>\<open>signInFacebook\<close> the key \<^verbatim>\<open>facebook_\<close> followed by it. This holds for
  the store answering with promises and for the one answering with the rows themselves.
\<close>

theorem signIn_google_facebook_symmetric:
  assumes "U = sequelize_User \<or> U = stub_User"
  shows "signInFacebook U socialUser appSecret (swap_store st)
         = (case signInGoogle U socialUser appSecret st of
              (res, st') \<Rightarrow> (map_sum (\<lambda>e. e) swap_result res, swap_store st'))
       \<and> (\<forall>res. fst (signInGoogle U socialUser appSecret st) = Inr res \<longrightarrow>
            (\<exists>u. property res ''user'' = Inr (Obj u)
               \<and> fld u ''social'' = Str (''google_'' @ to_str (fld socialUser ''social''))))
       \<and> (\<forall>res. fst (signInFacebook U socialUser appSecret st) = Inr res \<longrightarrow>
            (\<exists>u. property res ''user'' = Inr (Obj u)
               \<and> fld u ''social'' = Str (''facebook_'' @ to_str (fld socialUser ''social''))))"
  using signIn_swap [OF assms] signIn_success_key [OF assms] by blast

theorem signIn_google_facebook_symmetric_witness:
  "signInGoogle stub_User [(''social'', Str ''g1'')] (Str ''secret'') social_store
   = (Inr (Obj [(''token'', Str ''jwt.user-2.User.secret''),
                (''user'',
                 Obj [(''id'', Str ''user-2''), (''email'', Null), (''social'', Str ''google_g1''),
                      (''password'', Null), (''name'', Null), (''nickname'', Null),
                      (''photo'', Null), (''birthday'', Null), (''gender'', Null),
                      (''phone'', Null), (''verified'', Bool False)])]),
      social_store)
   \<and> signInFacebook stub_User [(''social'', Str ''g1'')] (Str ''secret'') (swap_store social_store)
   = (Inr (Obj [(''token'', Str ''jwt.user-2.User.secret''),
                (''user'',
                 Obj [(''id'', Str ''user-2''), (''email'', Null), (''social'', Str ''facebook_g1''),
                      (''password'', Null), (''name'', Null), (''nickname'', Null),
                      (''photo'', Null), (''birthday'', Null), (''gender'', Null),
                      (''phone'', Null), (''verified'', Bool False)])]),
      swap_store social_store)"
proof -
  have u: "stub_User = sequelize_User \<or> stub_User = stub_User"
    by simp
  have "signInFacebook stub_User [(''social'', Str ''g1'')] (Str ''secret'') (swap_store social_store)
        = (case signInGoogle stub_User [(''social'', Str ''g1'')] (Str ''secret'') social_store of
             (res, st') \<Rightarrow> (map_sum (\<lambda>e. e) swap_result res, swap_store st'))"
    using signIn_google_facebook_symmetric [OF u] by blast
  then show ?thesis
    by (simp add: signInGoogle_social_run swap_result_def swap_row_def swap_social_def
        swap_provider_def)
qed

end
